theory Spec2Isabelle
  imports Complex_Main
begin

section \<open>HuggingFaceFineTunedDemo: the quarterly Chronos rebalance\<close>

text \<open>
  The algorithm of \<^verbatim>\<open>02 Fine-Tuned Model/main.py\<close>: on a monthly tick it decides whether
  a quarter has passed, gathers the close prices of the selected universe, fine-tunes
  the Chronos model, forecasts, takes the median paths, asks SciPy for the weights of
  the best forward Sharpe ratio and sends the targets to the portfolio.

  Numbers are exact reals: a Python float is read as the real it denotes, rounding is
  not modelled, and \<open>NaN\<close> in a data frame is \<open>None\<close>. The host framework, the
  trainer, the forecasting pipeline and the solver are collaborators of the algorithm;
  they are parameters of the model (the record \<open>services\<close>), and every call to one of
  them is written to a log kept in the algorithm's state.
\<close>

subsection \<open>Values\<close>

type_synonym symbol = string

text \<open>
  A \<^verbatim>\<open>datetime\<close> and a \<^verbatim>\<open>timedelta\<close> count microseconds, Python's resolution
  (\<^verbatim>\<open>datetime.min\<close> is 0). The index of a daily price frame is a calendar day number:
  the algorithm sets \<^verbatim>\<open>daily_precise_end_time = False\<close>, so every daily bar is
  stamped at midnight.
\<close>

type_synonym datetime = int
type_synonym timedelta = int
type_synonym date = int

definition timedelta :: "int \<Rightarrow> timedelta" where
  "timedelta days = days * 86400000000"

definition datetime_min :: datetime where
  "datetime_min = 0"

datatype error =
    KeyError symbol
  | IndexError
  | ValueError
  | ZeroDivisionError
  | LibraryError string

text \<open>
  A column of the unstacked history frame: one cell per row of the index, \<open>None\<close>
  where the asset has no close price. A frame is its columns in order.
\<close>

type_synonym series = "(date \<times> real option) list"
type_synonym frame = "(symbol \<times> series) list"

text \<open>The forecast frame and the return frame have no missing cell.\<close>

type_synonym dataframe = "(symbol \<times> real list) list"

text \<open>A tensor of forecasts for one asset: one row per sampled path.\<close>

type_synonym tensor = "real list list"

datatype target = PortfolioTarget symbol real

fun target_symbol :: "target \<Rightarrow> symbol" where
  "target_symbol (PortfolioTarget s w) = s"

fun target_quantity :: "target \<Rightarrow> real" where
  "target_quantity (PortfolioTarget s w) = w"

record optimize_result =
  result_x :: "real list"
  result_success :: bool

subsection \<open>The collaborators and the state\<close>

text \<open>
  Every call that leaves the algorithm: the history request, the trainer's run, the
  loading of the pipeline, the prediction, the solver (with the column labels of the
  return frame it is given and the initial guess) and the portfolio targets.
\<close>

datatype call =
    History "symbol list" timedelta
  | Train "series list"
  | FromPretrained string
  | Predict "real list list" nat
  | Minimize "symbol list" "real list"
  | SetHoldings "target list" bool

record services =
  history :: "symbol list \<Rightarrow> timedelta \<Rightarrow> error + frame"
  trainer :: "series list \<Rightarrow> error + string"
  from_pretrained :: "string \<Rightarrow> error + string"
  predict :: "string \<Rightarrow> real list list \<Rightarrow> nat \<Rightarrow> error + tensor list"
  minimize :: "(real list \<Rightarrow> error + real) \<Rightarrow> real list \<Rightarrow> (real \<times> real) list
                \<Rightarrow> (real list \<Rightarrow> real) \<Rightarrow> error + optimize_result"
  get_interest_rate :: "datetime \<Rightarrow> real"

record algorithm =
  time :: datetime
  is_warming_up :: bool
  selected :: "symbol list"
  last_rebalance :: datetime
  lookback_period :: timedelta
  prediction_length :: nat
  holdings :: "target list"
  calls :: "call list"

definition logged :: "call \<Rightarrow> algorithm \<Rightarrow> algorithm" where
  "logged c s = s\<lparr>calls := calls s @ [c]\<rparr>"

text \<open>
  \<^verbatim>\<open>set_holdings(targets, True)\<close>: the targets become the portfolio, every other
  position is liquidated.
\<close>

definition set_holdings :: "target list \<Rightarrow> bool \<Rightarrow> algorithm \<Rightarrow> algorithm" where
  "set_holdings targets liquidate s =
     (logged (SetHoldings targets liquidate) s)
       \<lparr>holdings := (if liquidate then targets
                     else targets @ filter (\<lambda>h. target_symbol h \<notin> target_symbol ` set targets) (holdings s))\<rparr>"

subsection \<open>Frames and dictionaries\<close>

text \<open>A Python dictionary keeps its keys in the order of their first insertion.\<close>

fun dict_set :: "('k \<times> 'v) list \<Rightarrow> 'k \<Rightarrow> 'v \<Rightarrow> ('k \<times> 'v) list" where
  "dict_set [] k v = [(k, v)]"
| "dict_set ((k', v') # d) k v = (if k' = k then (k, v) # d else (k', v') # dict_set d k v)"

text \<open>\<^verbatim>\<open>history[[symbol]]\<close>: a label that is not a column raises.\<close>

definition column :: "frame \<Rightarrow> symbol \<Rightarrow> error + series" where
  "column hist symbol =
     (case map_of hist symbol of None \<Rightarrow> Inl (KeyError symbol) | Some col \<Rightarrow> Inr col)"

fun dropna :: "series \<Rightarrow> (date \<times> real) list" where
  "dropna [] = []"
| "dropna ((d, None) # rows) = dropna rows"
| "dropna ((d, Some v) # rows) = (d, v) # dropna rows"

text \<open>
  Modelled from the spec: \<^verbatim>\<open>resample('D').asfreq()\<close> is pandas' code, which is not
  part of the repository. The spec reads it as the strict daily frequency: the index
  becomes every calendar day from the first day of the series to its last, a day of
  the series keeps its value, and a day absent from it holds the missing marker.
  pandas reindexes for this and refuses an index with a repeated label.
\<close>

definition resample_asfreq :: "(date \<times> real) list \<Rightarrow> error + series" where
  "resample_asfreq df =
     (case map fst df of
        [] \<Rightarrow> Inr []
      | d # ds \<Rightarrow>
          if \<not> distinct (d # ds) then Inl ValueError
          else Inr (map (\<lambda>day. (day, map_of df day)) [fold min ds d .. fold max ds d]))"

subsection \<open>Gathering the training data (lines 131 to 143)\<close>

type_synonym training_dict = "(symbol \<times> series) list"

text \<open>
  The loop over \<^verbatim>\<open>symbols\<close>. The steps between the length test and the resampling
  (\<^verbatim>\<open>reset_index\<close>, \<^verbatim>\<open>rename\<close>, \<^verbatim>\<open>to_datetime\<close>, \<^verbatim>\<open>set_index\<close>) keep the index and
  the values of the one column.
\<close>

fun gather :: "frame \<Rightarrow> symbol list \<Rightarrow> training_dict \<Rightarrow> error + training_dict" where
  "gather hist [] training_data_by_symbol = Inr training_data_by_symbol"
| "gather hist (symbol # symbols) training_data_by_symbol =
     (case column hist symbol of
        Inl e \<Rightarrow> Inl e
      | Inr col \<Rightarrow>
          let df = dropna col in
          if length df < 10 then gather hist symbols training_data_by_symbol
          else
            (case resample_asfreq df of
               Inl e \<Rightarrow> Inl e
             | Inr adjusted_df \<Rightarrow>
                 gather hist symbols (dict_set training_data_by_symbol symbol adjusted_df)))"

subsection \<open>Training (lines 198 to 341)\<close>

text \<open>
  \<^verbatim>\<open>_trade\<close> passes no \<^verbatim>\<open>probability\<close>, so \<^verbatim>\<open>_train_chronos\<close> computes
  \<^verbatim>\<open>1.0 / len(training_data)\<close> before anything else that can fail; the rest is the
  library's training run, which returns the output directory.
\<close>

definition train_chronos ::
  "services \<Rightarrow> series list \<Rightarrow> algorithm \<Rightarrow> algorithm \<times> (error + string)" where
  "train_chronos env training_data s =
     (if length training_data = 0 then (s, Inl ZeroDivisionError)
      else (logged (Train training_data) s, trainer env training_data))"

subsection \<open>Forecasting and the median path (lines 166 to 183)\<close>

fun forecast_inputs :: "frame \<Rightarrow> symbol list \<Rightarrow> error + real list list" where
  "forecast_inputs hist [] = Inr []"
| "forecast_inputs hist (symbol # tradable_symbols) =
     (case column hist symbol of
        Inl e \<Rightarrow> Inl e
      | Inr col \<Rightarrow>
          (case forecast_inputs hist tradable_symbols of
             Inl e \<Rightarrow> Inl e
           | Inr inputs \<Rightarrow> Inr (map snd (dropna col) # inputs)))"

text \<open>
  \<^verbatim>\<open>np.quantile\<close> with its default method: the sorted sample is read at the virtual
  index \<open>(n - 1) * q\<close>, interpolating linearly between the two neighbours.
\<close>

definition quantile_1d :: "real list \<Rightarrow> real \<Rightarrow> real" where
  "quantile_1d xs q =
     (let sorted_xs = sort xs;
          h = real (length xs - 1) * q;
          lo = nat \<lfloor>h\<rfloor>;
          hi = min (lo + 1) (length xs - 1)
      in sorted_xs ! lo + (h - real lo) * (sorted_xs ! hi - sorted_xs ! lo))"

text \<open>
  \<^verbatim>\<open>axis=0\<close> runs over the sampled paths: one quantile per future time step. A tensor
  has all its paths of one length (a ragged nest is not an array: \<open>ValueError\<close>), and
  with no sampled path at all numpy finds no element to take and raises
  \<open>IndexError\<close>.
\<close>

definition np_quantile_axis0 :: "tensor \<Rightarrow> real \<Rightarrow> error + real list" where
  "np_quantile_axis0 a q =
     (case a of
        [] \<Rightarrow> Inl IndexError
      | path # paths \<Rightarrow>
          if list_ex (\<lambda>p. length p \<noteq> length path) paths then Inl ValueError
          else Inr (map (\<lambda>t. quantile_1d (map (\<lambda>p. p ! t) a) q) [0..<length path]))"

text \<open>The dictionary comprehension over \<^verbatim>\<open>enumerate(tradable_symbols)\<close>.\<close>

fun median_columns ::
  "tensor list \<Rightarrow> (nat \<times> symbol) list \<Rightarrow> dataframe \<Rightarrow> error + dataframe" where
  "median_columns all_forecasts [] acc = Inr acc"
| "median_columns all_forecasts ((i, symbol) # rest) acc =
     (if length all_forecasts \<le> i then Inl IndexError
      else
        (case np_quantile_axis0 (all_forecasts ! i) (1 / 2) of
           Inl e \<Rightarrow> Inl e
         | Inr col \<Rightarrow> median_columns all_forecasts rest (dict_set acc symbol col)))"

text \<open>\<^verbatim>\<open>pd.DataFrame(dict)\<close> refuses columns of different lengths.\<close>

definition data_frame :: "dataframe \<Rightarrow> error + dataframe" where
  "data_frame d =
     (case d of
        [] \<Rightarrow> Inr []
      | (k, col) # cols \<Rightarrow>
          if list_ex (\<lambda>(k', c). length c \<noteq> length col) cols then Inl ValueError else Inr d)"

definition median_forecasts :: "tensor list \<Rightarrow> symbol list \<Rightarrow> error + dataframe" where
  "median_forecasts all_forecasts tradable_symbols =
     (case median_columns all_forecasts (enumerate 0 tradable_symbols) [] of
        Inl e \<Rightarrow> Inl e
      | Inr d \<Rightarrow> data_frame d)"

text \<open>
  The median as the spec words it: the middle value of the sorted sample, the mean of
  the two middle values when their number is even.
\<close>

definition median :: "real list \<Rightarrow> real" where
  "median xs =
     (let s = sort xs; n = length xs
      in if odd n then s ! (n div 2) else (s ! (n div 2 - 1) + s ! (n div 2)) / 2)"

subsection \<open>The Sharpe ratio (lines 78 to 94)\<close>

text \<open>\<^verbatim>\<open>DataFrame.mean\<close> and \<^verbatim>\<open>DataFrame.cov\<close>: column means, and the sample covariance
  of two columns (pandas divides by \<open>n - 1\<close>).\<close>

definition mean :: "real list \<Rightarrow> real" where
  "mean xs = sum_list xs / real (length xs)"

definition cov :: "real list \<Rightarrow> real list \<Rightarrow> real" where
  "cov xs ys =
     sum_list (map2 (\<lambda>x y. (x - mean xs) * (y - mean ys)) xs ys) / (real (length xs) - 1)"

definition np_dot :: "real list \<Rightarrow> real list \<Rightarrow> real" where
  "np_dot xs ys = sum_list (map2 (*) xs ys)"

text \<open>
  \<^verbatim>\<open>mean_returns * weights\<close> multiplies a Series of one entry per column by the weight
  array, position by position, and raises when their lengths differ.
\<close>

definition sharpe_ratio :: "real list \<Rightarrow> dataframe \<Rightarrow> real \<Rightarrow> real \<Rightarrow> error + real" where
  "sharpe_ratio weights returns risk_free_rate trading_days_per_year =
     (let cols = map snd returns;
          mean_returns = map (\<lambda>c. mean c * trading_days_per_year) cols;
          cov_matrix = map (\<lambda>a. map (\<lambda>b. cov a b * trading_days_per_year) cols) cols
      in if length weights \<noteq> length cols then Inl ValueError
         else
           let portfolio_return = sum_list (map2 (*) mean_returns weights);
               portfolio_std =
                 sqrt (np_dot weights (map (\<lambda>row. np_dot row weights) cov_matrix));
               sharpe = (portfolio_return - risk_free_rate) / portfolio_std
           in Inr (- sharpe))"

text \<open>
  The objective as the spec writes it, over the indices of the assets: the inner
  product of the weights with the annualised mean returns, and the quadratic form of
  the annualised covariance matrix.
\<close>

definition annualised_mean :: "dataframe \<Rightarrow> nat \<Rightarrow> real" where
  "annualised_mean returns i = mean (snd (returns ! i)) * 252"

definition annualised_cov :: "dataframe \<Rightarrow> nat \<Rightarrow> nat \<Rightarrow> real" where
  "annualised_cov returns i j = cov (snd (returns ! i)) (snd (returns ! j)) * 252"

definition negated_sharpe :: "real list \<Rightarrow> dataframe \<Rightarrow> real \<Rightarrow> real" where
  "negated_sharpe w returns r =
     - (((\<Sum>i<length returns. w ! i * annualised_mean returns i) - r)
        / sqrt (\<Sum>i<length returns. \<Sum>j<length returns.
                  w ! i * annualised_cov returns i j * w ! j))"

subsection \<open>The optimizer (lines 96 to 115)\<close>

text \<open>
  \<^verbatim>\<open>pct_change()\<close>: the first row of the changes is missing in every column; every
  other cell is the ratio of a value to the one before it, less one, and is missing
  (\<open>NaN\<close>) where both are zero. A nonzero value after a zero gives \<open>inf\<close> in the source,
  which the reals do not have: the quotient is then HOL's, \<open>x / 0 = 0\<close>.
\<close>

definition pct_change :: "real list \<Rightarrow> real option list" where
  "pct_change xs =
     (case xs of
        [] \<Rightarrow> []
      | x # rest \<Rightarrow>
          None # map2 (\<lambda>prev cur. if prev = 0 \<and> cur = 0 then None
                                  else Some (cur / prev - 1)) xs rest)"

definition frame_pct_change :: "dataframe \<Rightarrow> (symbol \<times> real option list) list" where
  "frame_pct_change df = map (\<lambda>(symbol, curve). (symbol, pct_change curve)) df"

text \<open>\<^verbatim>\<open>dropna()\<close> on a frame drops every row that has a missing cell in any column.\<close>

definition dropna_rows :: "(symbol \<times> real option list) list \<Rightarrow> dataframe" where
  "dropna_rows df =
     map (\<lambda>(symbol, col).
            (symbol,
             List.map_filter
               (\<lambda>k. if list_all (\<lambda>(label, c). k < length c \<and> c ! k \<noteq> None) df
                     then col ! k else None)
               [0..<length col]))
         df"

definition optimize_portfolio ::
  "services \<Rightarrow> dataframe \<Rightarrow> algorithm \<Rightarrow> algorithm \<times> (error + real list)" where
  "optimize_portfolio env equity_curves s =
     (let returns = dropna_rows (frame_pct_change equity_curves);
          num_assets = length returns
      in if num_assets = 0 then (s, Inl ZeroDivisionError)
         else
           let initial_guess = replicate num_assets (1 / real num_assets);
               risk_free = get_interest_rate env (time s);
               s' = logged (Minimize (map fst returns) initial_guess) s
           in (case minimize env
                      (\<lambda>weights. sharpe_ratio weights returns risk_free 252)
                      initial_guess
                      (replicate num_assets (0, 1))
                      (\<lambda>weights. sum_list weights - 1) of
                 Inl e \<Rightarrow> (s', Inl e)
               | Inr result \<Rightarrow> (s', Inr (result_x result))))"



subsection \<open>The rebalance (lines 117 to 196)\<close>

text \<open>The list of targets: \<^verbatim>\<open>optimal_weights[i]\<close> raises past the end of the array.\<close>

fun portfolio_targets :: "real list \<Rightarrow> (nat \<times> symbol) list \<Rightarrow> error + target list" where
  "portfolio_targets optimal_weights [] = Inr []"
| "portfolio_targets optimal_weights ((i, symbol) # rest) =
     (if length optimal_weights \<le> i then Inl IndexError
      else
        (case portfolio_targets optimal_weights rest of
           Inl e \<Rightarrow> Inl e
         | Inr targets \<Rightarrow> Inr (PortfolioTarget symbol (optimal_weights ! i) # targets)))"

text \<open>Everything after the marker is set, in the order of the source.\<close>

definition rebalance :: "services \<Rightarrow> algorithm \<Rightarrow> algorithm \<times> (error + unit)" where
  "rebalance env s0 =
     (let symbols = selected s0;
          s1 = logged (History symbols (lookback_period s0)) s0
      in case history env symbols (lookback_period s0) of
           Inl e \<Rightarrow> (s1, Inl e)
         | Inr hist \<Rightarrow>
      (case gather hist symbols [] of
           Inl e \<Rightarrow> (s1, Inl e)
         | Inr training_data_by_symbol \<Rightarrow>
      (let tradable_symbols = map fst training_data_by_symbol
       in case train_chronos env (map snd training_data_by_symbol) s1 of
           (s2, Inl e) \<Rightarrow> (s2, Inl e)
         | (s2, Inr output_dir_path) \<Rightarrow>
      (let s3 = logged (FromPretrained output_dir_path) s2
       in case from_pretrained env output_dir_path of
           Inl e \<Rightarrow> (s3, Inl e)
         | Inr pipeline \<Rightarrow>
      (case forecast_inputs hist tradable_symbols of
           Inl e \<Rightarrow> (s3, Inl e)
         | Inr inputs \<Rightarrow>
      (let s4 = logged (Predict inputs (prediction_length s3)) s3
       in case predict env pipeline inputs (prediction_length s3) of
           Inl e \<Rightarrow> (s4, Inl e)
         | Inr all_forecasts \<Rightarrow>
      (case median_forecasts all_forecasts tradable_symbols of
           Inl e \<Rightarrow> (s4, Inl e)
         | Inr forecasts_df \<Rightarrow>
      (case optimize_portfolio env forecasts_df s4 of
           (s5, Inl e) \<Rightarrow> (s5, Inl e)
         | (s5, Inr optimal_weights) \<Rightarrow>
      (case portfolio_targets optimal_weights (enumerate 0 tradable_symbols) of
           Inl e \<Rightarrow> (s5, Inl e)
         | Inr targets \<Rightarrow> (set_holdings targets True s5, Inr ()))))))))))"

definition trade :: "services \<Rightarrow> algorithm \<Rightarrow> algorithm \<times> (error + unit)" where
  "trade env s =
     (if is_warming_up s then (s, Inr ())
      else if time s - last_rebalance s < timedelta 80 then (s, Inr ())
      else rebalance env (s\<lparr>last_rebalance := time s\<rparr>))"

definition initialize :: "datetime \<Rightarrow> symbol list \<Rightarrow> algorithm" where
  "initialize now universe =
     \<lparr>time = now, is_warming_up = True, selected = universe, last_rebalance = datetime_min,
      lookback_period = timedelta (365 * 1), prediction_length = 3 * 21, holdings = [],
      calls = []\<rparr>"

subsection \<open>Reading the log\<close>

fun set_holdings_calls :: "call list \<Rightarrow> (target list \<times> bool) list" where
  "set_holdings_calls [] = []"
| "set_holdings_calls (SetHoldings ts b # cs) = (ts, b) # set_holdings_calls cs"
| "set_holdings_calls (c # cs) = set_holdings_calls cs"

fun solver_calls :: "call list \<Rightarrow> nat" where
  "solver_calls [] = 0"
| "solver_calls (Minimize cols x0 # cs) = Suc (solver_calls cs)"
| "solver_calls (c # cs) = solver_calls cs"

subsection \<open>A scenario\<close>

text \<open>
  Two assets with ten closes around a weekend and one listed a day ago; a pipeline
  that samples two paths from the last close; a solver that is handed in.
\<close>

definition example_frame :: "symbol list \<Rightarrow> frame" where
  "example_frame symbols =
     map (\<lambda>symbol.
            (symbol,
             if symbol = ''NEW'' then [(10, Some 5), (11, None)]
             else map (\<lambda>d. (d, Some ((if symbol = ''BBB'' then 200 else 100) + real_of_int d)))
                    ([0..4] @ [7..11])))
         symbols"

definition example_history :: "symbol list \<Rightarrow> timedelta \<Rightarrow> error + frame" where
  "example_history symbols lookback = Inr (example_frame symbols)"

definition example_services :: "(real list \<Rightarrow> error + optimize_result) \<Rightarrow> services" where
  "example_services solver =
     \<lparr>history = example_history,
      trainer = (\<lambda>training_data. Inr ''llm/fine-tune/amazon-chronos-t5-tiny''),
      from_pretrained = (\<lambda>path. Inr path),
      predict = (\<lambda>pipeline inputs n.
         Inr (map (\<lambda>x. [map (\<lambda>k. last (0 # x) + real k) [0..<n],
                          map (\<lambda>k. last (0 # x) + 3 * real k) [0..<n]]) inputs)),
      minimize = (\<lambda>objective x0 bounds constraint. solver x0),
      get_interest_rate = (\<lambda>t. 0)\<rparr>"

definition stalled_solver :: "real list \<Rightarrow> error + optimize_result" where
  "stalled_solver x0 = Inr \<lparr>result_x = x0, result_success = False\<rparr>"

definition converged_solver :: "real list \<Rightarrow> error + optimize_result" where
  "converged_solver x0 = Inr \<lparr>result_x = [1 / 4, 3 / 4], result_success = True\<rparr>"

definition example_algorithm :: algorithm where
  "example_algorithm =
     (initialize (timedelta 737059) [''AAA'', ''NEW'', ''BBB''])
       \<lparr>is_warming_up := False, prediction_length := 3\<rparr>"

definition failing_history :: services where
  "failing_history =
     (example_services stalled_solver)
       \<lparr>history := (\<lambda>symbols lookback. Inl (LibraryError ''no data''))\<rparr>"


section \<open>Auxiliary facts\<close>

lemma returns_columns [simp]:
  "map fst (dropna_rows (frame_pct_change df)) = map fst df"
  by (simp add: dropna_rows_def frame_pct_change_def comp_def case_prod_unfold)

lemma returns_length [simp]: "length (dropna_rows (frame_pct_change df)) = length df"
  by (simp add: dropna_rows_def frame_pct_change_def)

lemma returns_empty [simp]: "dropna_rows (frame_pct_change df) = [] \<longleftrightarrow> df = []"
  by (simp add: dropna_rows_def frame_pct_change_def)

lemma set_holdings_calls_append:
  "set_holdings_calls (xs @ ys) = set_holdings_calls xs @ set_holdings_calls ys"
  by (induction xs rule: set_holdings_calls.induct) auto

lemma solver_calls_append: "solver_calls (xs @ ys) = solver_calls xs + solver_calls ys"
  by (induction xs rule: solver_calls.induct) auto

lemma train_chronos_frame:
  "train_chronos env d s = (s', r) \<Longrightarrow> s' = s \<or> s' = logged (Train d) s"
  by (auto simp: train_chronos_def split: if_splits)

lemma optimize_portfolio_frame:
  "optimize_portfolio env df s = (s', r) \<Longrightarrow>
    s' = s \<or> (\<exists>x0. s' = logged (Minimize (map fst df) x0) s)"
  by (auto simp: optimize_portfolio_def Let_def comp_def case_prod_unfold split: if_splits sum.splits)

lemma rebalance_frame:
  "rebalance env s = (s', out) \<Longrightarrow>
     time s' = time s \<and> is_warming_up s' = is_warming_up s \<and> selected s' = selected s \<and>
     last_rebalance s' = last_rebalance s \<and> lookback_period s' = lookback_period s \<and>
     prediction_length s' = prediction_length s \<and>
     (\<exists>cs. calls s' = calls s @ History (selected s) (lookback_period s) # cs)"
  unfolding rebalance_def Let_def
  by (auto split: sum.splits prod.splits dest!: train_chronos_frame optimize_portfolio_frame simp: logged_def set_holdings_def)

lemma rebalance_holdings:
  "rebalance env s = (s', out) \<Longrightarrow>
     (case out of
        Inl e \<Rightarrow> holdings s' = holdings s \<and>
                 set_holdings_calls (calls s') = set_holdings_calls (calls s)
      | Inr u \<Rightarrow> set_holdings_calls (calls s') =
                 set_holdings_calls (calls s) @ [(holdings s', True)])"
  unfolding rebalance_def Let_def
  by (auto split: sum.splits prod.splits dest!: train_chronos_frame optimize_portfolio_frame
        simp: logged_def set_holdings_def set_holdings_calls_append)

lemma rebalance_solver_calls:
  "rebalance env s = (s', out) \<Longrightarrow> solver_calls (calls s') \<le> solver_calls (calls s) + 1"
  unfolding rebalance_def Let_def
  by (auto split: sum.splits prod.splits dest!: train_chronos_frame optimize_portfolio_frame
        simp: logged_def set_holdings_def solver_calls_append)

lemma dict_set_keys:
  "map fst (dict_set d k v) = (if k \<in> set (map fst d) then map fst d else map fst d @ [k])"
  by (induction d) (auto simp: rev_image_eqI)

lemma dict_set_key_set: "set (map fst (dict_set d k v)) = insert k (set (map fst d))"
  by (auto simp: dict_set_keys)

lemma dict_set_fresh: "k \<notin> set (map fst d) \<Longrightarrow> dict_set d k v = d @ [(k, v)]"
  by (induction d) auto

lemma dict_set_distinct: "distinct (map fst d) \<Longrightarrow> distinct (map fst (dict_set d k v))"
  by (simp add: dict_set_keys)

lemma column_Inr: "column hist symbol = Inr col \<longleftrightarrow> map_of hist symbol = Some col"
  by (auto simp: column_def split: option.splits)

lemma gather_keys:
  "gather hist symbols acc = Inr d \<Longrightarrow> k \<in> set (map fst d) \<Longrightarrow>
     k \<in> set (map fst acc) \<or> (\<exists>col. map_of hist k = Some col \<and> 10 \<le> length (dropna col))"
proof (induction symbols arbitrary: acc)
  case Nil
  then show ?case by simp
next
  case (Cons symbol symbols)
  show ?case
  proof (cases "column hist symbol")
    case (Inl e)
    with Cons.prems show ?thesis by simp
  next
    case (Inr col)
    then have col: "map_of hist symbol = Some col"
      by (simp add: column_Inr)
    show ?thesis
    proof (cases "length (dropna col) < 10")
      case True
      with Cons Inr show ?thesis by (simp add: Let_def)
    next
      case False
      with Cons.prems Inr obtain adj where
        g: "gather hist symbols (dict_set acc symbol adj) = Inr d"
        by (auto simp: Let_def split: sum.splits)
      from Cons.IH [OF g Cons.prems(2)] col False show ?thesis
        unfolding dict_set_key_set by auto
    qed
  qed
qed

lemma gather_distinct:
  "gather hist symbols acc = Inr d \<Longrightarrow> distinct (map fst acc) \<Longrightarrow> distinct (map fst d)"
proof (induction symbols arbitrary: acc)
  case Nil
  then show ?case by simp
next
  case (Cons symbol symbols)
  then show ?case
    by (auto simp: Let_def dict_set_distinct split: sum.splits if_splits)
qed

lemma forecast_inputs_aligned:
  "forecast_inputs hist tradable = Inr inputs \<Longrightarrow>
     list_all2 (\<lambda>symbol input. \<exists>col. map_of hist symbol = Some col \<and> input = map snd (dropna col))
       tradable inputs"
  by (induction tradable arbitrary: inputs) (auto split: sum.splits simp: column_Inr)

lemma portfolio_targets_aligned:
  "portfolio_targets w (enumerate n tradable) = Inr targets \<Longrightarrow>
     (tradable = [] \<or> n + length tradable \<le> length w) \<and>
     targets = map2 PortfolioTarget tradable (take (length tradable) (drop n w))"
proof (induction tradable arbitrary: n targets)
  case Nil
  then show ?case by simp
next
  case (Cons symbol tradable)
  from Cons.prems obtain rest where
    r: "portfolio_targets w (enumerate (Suc n) tradable) = Inr rest"
    and t: "targets = PortfolioTarget symbol (w ! n) # rest" and n: "n < length w"
    by (auto split: if_splits sum.splits)
  from Cons.IH [OF r] have "tradable = [] \<or> Suc n + length tradable \<le> length w"
    and "rest = map2 PortfolioTarget tradable (take (length tradable) (drop (Suc n) w))"
    by simp_all
  with t n show ?case
    by (auto simp: Cons_nth_drop_Suc [symmetric])
qed

lemma quantile_half_is_median:
  assumes "xs \<noteq> []"
  shows "quantile_1d xs (1 / 2) = median xs"
proof (cases "odd (length xs)")
  case True
  then obtain k where k: "length xs = 2 * k + 1" by (auto elim: oddE)
  have h: "real (length xs - 1) * (1 / 2) = real k" using k by simp
  have d: "length xs div 2 = k" using k by simp
  show ?thesis
    unfolding quantile_1d_def median_def Let_def h using True d by simp
next
  case False
  then obtain k where k: "length xs = 2 * k" by (auto elim!: evenE)
  with assms have k0: "0 < k" by (cases k) auto
  have fl: "\<lfloor>real (length xs - 1) * (1 / 2)\<rfloor> = int (k - 1)"
  proof -
    have "real (length xs - 1) * (1 / 2) = real (2 * k - 1) / real 2" using k by simp
    also have "\<lfloor>\<dots>\<rfloor> = int ((2 * k - 1) div 2)" by (rule floor_divide_of_nat_eq)
    also have "(2 * k - 1) div 2 = k - 1" using k0 by simp
    finally show ?thesis .
  qed
  then have lo: "nat \<lfloor>real (length xs - 1) * (1 / 2)\<rfloor> = k - 1" by simp
  have h: "real (length xs - 1) * (1 / 2) - real (k - 1) = 1 / 2"
    using k k0 by (simp add: of_nat_diff field_simps)
  have hi: "min (k - 1 + 1) (length xs - 1) = k" using k k0 by simp
  have d: "length xs div 2 = k" using k by simp
  have "quantile_1d xs (1 / 2) =
          sort xs ! (k - 1) + 1 / 2 * (sort xs ! k - sort xs ! (k - 1))"
    unfolding quantile_1d_def Let_def lo h hi ..
  also have "\<dots> = (sort xs ! (k - 1) + sort xs ! k) / 2" by (simp add: field_simps)
  also have "\<dots> = median xs" using False d by (simp add: median_def Let_def)
  finally show ?thesis .
qed

lemma np_quantile_axis0_Inr:
  assumes "np_quantile_axis0 a q = Inr col"
  shows "a \<noteq> [] \<and> (\<forall>p \<in> set a. length p = length col) \<and>
         (\<forall>t < length col. col ! t = quantile_1d (map (\<lambda>p. p ! t) a) q)"
proof (cases a)
  case Nil
  with assms show ?thesis by (simp add: np_quantile_axis0_def)
next
  case (Cons path paths)
  with assms have r: "\<not> list_ex (\<lambda>p. length p \<noteq> length path) paths"
    and c: "col = map (\<lambda>t. quantile_1d (map (\<lambda>p. p ! t) a) q) [0..<length path]"
    by (auto simp: np_quantile_axis0_def split: if_splits)
  from r Cons c show ?thesis by (auto simp: list_ex_iff)
qed

lemma median_columns_shape:
  "median_columns all_forecasts ixs acc = Inr d \<Longrightarrow>
   distinct (map fst acc @ map snd ixs) \<Longrightarrow>
     \<exists>d'. d = acc @ d' \<and>
       list_all2 (\<lambda>(i, symbol) (label, col). label = symbol \<and> i < length all_forecasts \<and>
                  np_quantile_axis0 (all_forecasts ! i) (1 / 2) = Inr col) ixs d'"
proof (induction ixs arbitrary: acc)
  case Nil
  then show ?case by simp
next
  case (Cons ix ixs)
  obtain i symbol where ix: "ix = (i, symbol)" by (cases ix)
  with Cons.prems obtain col where
    i: "i < length all_forecasts"
    and q: "np_quantile_axis0 (all_forecasts ! i) (1 / 2) = Inr col"
    and m: "median_columns all_forecasts ixs (dict_set acc symbol col) = Inr d"
    by (auto split: if_splits sum.splits)
  from Cons.prems(2) ix have fresh: "symbol \<notin> set (map fst acc)" by auto
  have ds: "dict_set acc symbol col = acc @ [(symbol, col)]"
    using fresh by (induction acc) auto
  from Cons.prems(2) ix have dist: "distinct (map fst (acc @ [(symbol, col)]) @ map snd ixs)"
    by auto
  from Cons.IH [OF m [unfolded ds] dist] obtain d' where
    d: "d = (acc @ [(symbol, col)]) @ d'"
    and l: "list_all2 (\<lambda>(i, symbol) (label, col). label = symbol \<and> i < length all_forecasts \<and>
                  np_quantile_axis0 (all_forecasts ! i) (1 / 2) = Inr col) ixs d'"
    by blast
  show ?case
  proof (intro exI conjI)
    show "d = acc @ ((symbol, col) # d')" using d by simp
    show "list_all2 (\<lambda>(i, symbol) (label, col). label = symbol \<and> i < length all_forecasts \<and>
                  np_quantile_axis0 (all_forecasts ! i) (1 / 2) = Inr col) (ix # ixs) ((symbol, col) # d')"
      using l ix i q by simp
  qed
qed

lemma fold_min_le: "fold min ds (d::int) \<le> d \<and> (\<forall>x \<in> set ds. fold min ds d \<le> x)"
proof (induction ds arbitrary: d)
  case Nil
  then show ?case by simp
next
  case (Cons a ds)
  from Cons [of "min a d"] show ?case by auto
qed

lemma fold_max_ge: "d \<le> fold max ds (d::int) \<and> (\<forall>x \<in> set ds. x \<le> fold max ds d)"
proof (induction ds arbitrary: d)
  case Nil
  then show ?case by simp
next
  case (Cons a ds)
  from Cons [of "max a d"] show ?case by auto
qed

lemma resample_asfreq_Inr:
  assumes "resample_asfreq df = Inr r" and "df \<noteq> []"
  shows "distinct (map fst df) \<and>
         r = map (\<lambda>day. (day, map_of df day))
               [fold min (tl (map fst df)) (hd (map fst df)) ..
                fold max (tl (map fst df)) (hd (map fst df))]"
  using assms by (cases df) (auto simp: resample_asfreq_def split: if_splits)

lemma sum_list_map2_nth:
  "length xs = length ys \<Longrightarrow>
     sum_list (map2 f xs ys) = (\<Sum>i<length xs. f (xs ! i) (ys ! i) :: real)"
proof -
  assume l: "length xs = length ys"
  have "sum_list (map2 f xs ys) = (\<Sum>i = 0..<length (map2 f xs ys). map2 f xs ys ! i)"
    by (rule sum_list_sum_nth)
  also have "\<dots> = (\<Sum>i = 0..<length xs. f (xs ! i) (ys ! i))"
    using l by (intro sum.cong) auto
  finally show ?thesis by (simp add: lessThan_atLeast0)
qed

lemma np_dot_nth: "length xs = length ys \<Longrightarrow> np_dot xs ys = (\<Sum>i<length xs. xs ! i * ys ! i)"
  unfolding np_dot_def by (rule sum_list_map2_nth)

lemma optimize_portfolio_state:
  "fst (optimize_portfolio env df s) =
     (if df = [] then s
      else logged (Minimize (map fst df) (replicate (length df) (1 / real (length df)))) s)"
  by (auto simp: optimize_portfolio_def Let_def comp_def case_prod_unfold split: sum.splits)

lemma optimize_portfolio_value:
  "snd (optimize_portfolio env df s) =
     (if df = [] then Inl ZeroDivisionError
      else case minimize env
                  (\<lambda>weights. sharpe_ratio weights
                     (dropna_rows (frame_pct_change df))
                     (get_interest_rate env (time s)) 252)
                  (replicate (length df) (1 / real (length df)))
                  (replicate (length df) (0, 1))
                  (\<lambda>weights. sum_list weights - 1) of
             Inl e \<Rightarrow> Inl e
           | Inr result \<Rightarrow> Inr (result_x result))"
  by (auto simp: optimize_portfolio_def Let_def split: sum.splits)

lemma optimize_portfolio_time:
  "time s' = time s \<Longrightarrow> snd (optimize_portfolio env df s') = snd (optimize_portfolio env df s)"
  by (simp add: optimize_portfolio_value)

lemma data_frame_Inr: "data_frame d = Inr df \<Longrightarrow> df = d"
  by (auto simp: data_frame_def split: list.splits if_splits)

lemma list_all2_labels:
  "list_all2 (\<lambda>(i, symbol) (label, col). label = symbol \<and> P i col) (enumerate n xs) d \<Longrightarrow>
     map fst d = xs"
proof (induction xs arbitrary: n d)
  case Nil
  then show ?case by simp
next
  case (Cons x xs)
  then show ?case by (cases d) auto
qed

lemma median_forecasts_columns:
  assumes "median_forecasts all_forecasts tradable = Inr df" and "distinct tradable"
  shows "map fst df = tradable"
proof -
  from assms(1) obtain d where m: "median_columns all_forecasts (enumerate 0 tradable) [] = Inr d"
    and df: "data_frame d = Inr df"
    by (auto simp: median_forecasts_def split: sum.splits)
  from assms(2) have "distinct (map fst ([] :: dataframe) @ map snd (enumerate 0 tradable))"
    by simp
  from median_columns_shape [OF m this] data_frame_Inr [OF df] show ?thesis
    by (auto dest: list_all2_labels)
qed

lemma rebalance_success:
  assumes "rebalance env s = (s', Inr ())"
  shows "\<exists>hist training path pipeline inputs all_forecasts forecasts_df x0 w.
     history env (selected s) (lookback_period s) = Inr hist \<and>
     gather hist (selected s) [] = Inr training \<and>
     training \<noteq> [] \<and>
     trainer env (map snd training) = Inr path \<and>
     from_pretrained env path = Inr pipeline \<and>
     forecast_inputs hist (map fst training) = Inr inputs \<and>
     predict env pipeline inputs (prediction_length s) = Inr all_forecasts \<and>
     median_forecasts all_forecasts (map fst training) = Inr forecasts_df \<and>
     snd (optimize_portfolio env forecasts_df s) = Inr w \<and>
     portfolio_targets w (enumerate 0 (map fst training)) = Inr (holdings s') \<and>
     calls s' = calls s @
       [History (selected s) (lookback_period s), Train (map snd training),
        FromPretrained path, Predict inputs (prediction_length s),
        Minimize (map fst forecasts_df) x0, SetHoldings (holdings s') True]"
proof -
  let ?s1 = "logged (History (selected s) (lookback_period s)) s"
  from assms obtain hist where h: "history env (selected s) (lookback_period s) = Inr hist"
    by (auto simp: rebalance_def Let_def split: sum.splits)
  from assms h obtain training where g: "gather hist (selected s) [] = Inr training"
    by (auto simp: rebalance_def Let_def split: sum.splits)
  from assms h g obtain s2 path where
    t: "train_chronos env (map snd training) ?s1 = (s2, Inr path)"
    by (auto simp: rebalance_def Let_def split: sum.splits prod.splits)
  then have s2: "s2 = logged (Train (map snd training)) ?s1"
    and tn: "training \<noteq> []" and tr: "trainer env (map snd training) = Inr path"
    by (auto simp: train_chronos_def split: if_splits)
  let ?s3 = "logged (FromPretrained path) s2"
  from assms h g t obtain pipeline where p: "from_pretrained env path = Inr pipeline"
    by (auto simp: rebalance_def Let_def split: sum.splits)
  from assms h g t p obtain inputs where
    i: "forecast_inputs hist (map fst training) = Inr inputs"
    by (auto simp: rebalance_def Let_def split: sum.splits)
  let ?s4 = "logged (Predict inputs (prediction_length ?s3)) ?s3"
  from assms h g t p i obtain all_forecasts where
    a: "predict env pipeline inputs (prediction_length ?s3) = Inr all_forecasts"
    by (auto simp: rebalance_def Let_def split: sum.splits)
  from assms h g t p i a obtain forecasts_df where
    m: "median_forecasts all_forecasts (map fst training) = Inr forecasts_df"
    by (auto simp: rebalance_def Let_def split: sum.splits)
  from assms h g t p i a m obtain s5 w where
    o: "optimize_portfolio env forecasts_df ?s4 = (s5, Inr w)"
    by (auto simp: rebalance_def Let_def split: sum.splits prod.splits)
  from assms h g t p i a m o obtain targets where
    pt: "portfolio_targets w (enumerate 0 (map fst training)) = Inr targets"
    and s': "s' = set_holdings targets True s5"
    by (auto simp: rebalance_def Let_def split: sum.splits)
  from o have ne: "forecasts_df \<noteq> []"
    using optimize_portfolio_value [of env forecasts_df ?s4] by auto
  from o have s5: "s5 = logged (Minimize (map fst forecasts_df)
      (replicate (length forecasts_df) (1 / real (length forecasts_df)))) ?s4"
    using optimize_portfolio_state [of env forecasts_df ?s4] ne by simp
  have tm: "time ?s4 = time s" and pl: "prediction_length ?s3 = prediction_length s"
    by (simp_all add: s2 logged_def)
  from o have w: "snd (optimize_portfolio env forecasts_df s) = Inr w"
    using optimize_portfolio_time [OF tm, of env forecasts_df] by simp
  have hs: "holdings s' = targets" by (simp add: s' set_holdings_def)
  have cs: "calls s' = calls s @
       [History (selected s) (lookback_period s), Train (map snd training),
        FromPretrained path, Predict inputs (prediction_length s),
        Minimize (map fst forecasts_df) (replicate (length forecasts_df) (1 / real (length forecasts_df))),
        SetHoldings targets True]"
    by (simp add: s' s5 s2 set_holdings_def logged_def)
  note a' = a [unfolded pl] and pt' = pt [folded hs] and cs' = cs [folded hs]
  show ?thesis
    by (intro exI conjI) (rule h g tn tr p i a' m w pt' cs')+
qed

lemma rebalance_completes:
  assumes "history env (selected s) (lookback_period s) = Inr hist"
    and "gather hist (selected s) [] = Inr training"
    and "training \<noteq> []"
    and "trainer env (map snd training) = Inr path"
    and "from_pretrained env path = Inr pipeline"
    and "forecast_inputs hist (map fst training) = Inr inputs"
    and "predict env pipeline inputs (prediction_length s) = Inr all_forecasts"
    and "median_forecasts all_forecasts (map fst training) = Inr forecasts_df"
    and "snd (optimize_portfolio env forecasts_df s) = Inr w"
    and "portfolio_targets w (enumerate 0 (map fst training)) = Inr targets"
  shows "snd (rebalance env s) = Inr () \<and> holdings (fst (rebalance env s)) = targets"
proof -
  let ?s1 = "logged (History (selected s) (lookback_period s)) s"
  let ?s2 = "logged (Train (map snd training)) ?s1"
  let ?s3 = "logged (FromPretrained path) ?s2"
  let ?s4 = "logged (Predict inputs (prediction_length ?s3)) ?s3"
  have t: "train_chronos env (map snd training) ?s1 = (?s2, Inr path)"
    using assms(3,4) by (simp add: train_chronos_def)
  have pl: "prediction_length ?s3 = prediction_length s" by (simp add: logged_def)
  have tm: "time ?s4 = time s" by (simp add: logged_def)
  have o: "snd (optimize_portfolio env forecasts_df ?s4) = Inr w"
    using optimize_portfolio_time [OF tm, of env forecasts_df] assms(9) by simp
  obtain s5 where o': "optimize_portfolio env forecasts_df ?s4 = (s5, Inr w)"
    using o by (cases "optimize_portfolio env forecasts_df ?s4") simp
  have r: "rebalance env s = (set_holdings targets True s5, Inr ())"
    unfolding rebalance_def Let_def
    using assms(1,2,5,6,8,10) t o' assms(7) [folded pl]
    by simp
  then show ?thesis by (simp add: set_holdings_def)
qed

lemma zip_take_length: "zip xs (take (length xs) ys) = zip xs ys"
proof (induction xs arbitrary: ys)
  case Nil
  then show ?case by simp
next
  case (Cons x xs)
  then show ?case by (cases ys) simp_all
qed

lemma trade_rebalanced:
  assumes "trade env s = (s', out)" and "s' \<noteq> s"
  shows "rebalance env (s\<lparr>last_rebalance := time s\<rparr>) = (s', out)"
  using assms by (auto simp: trade_def split: if_splits)

subsection \<open>The scenario, run\<close>

lemmas scenario_defs =
  rebalance_def example_services_def example_history_def example_frame_def Let_def logged_def
  column_def resample_asfreq_def train_chronos_def median_forecasts_def np_quantile_axis0_def
  quantile_1d_def data_frame_def optimize_portfolio_def set_holdings_def
  enumerate_eq_zip upto.simps

lemma example_not_warming:
  "\<not> is_warming_up example_algorithm \<and>
   timedelta 80 \<le> time example_algorithm - last_rebalance example_algorithm"
  by (simp add: example_algorithm_def initialize_def timedelta_def datetime_min_def)

lemma failing_trade:
  "trade failing_history example_algorithm =
     (example_algorithm\<lparr>last_rebalance := timedelta 737059,
        calls := [History [''AAA'', ''NEW'', ''BBB''] (timedelta 365)]\<rparr>,
      Inl (LibraryError ''no data''))"
  by (simp add: trade_def rebalance_def failing_history_def example_services_def
      example_algorithm_def initialize_def timedelta_def datetime_min_def logged_def)

lemma converged_trade:
  "trade (example_services converged_solver) example_algorithm =
     (example_algorithm\<lparr>last_rebalance := timedelta 737059,
        holdings := [PortfolioTarget ''AAA'' (1 / 4), PortfolioTarget ''BBB'' (3 / 4)],
        calls :=
          [History [''AAA'', ''NEW'', ''BBB''] (timedelta 365),
           Train
             [[(0, Some 100), (1, Some 101), (2, Some 102), (3, Some 103),
               (4, Some 104), (5, None), (6, None), (7, Some 107),
               (8, Some 108), (9, Some 109), (10, Some 110), (11, Some 111)],
              [(0, Some 200), (1, Some 201), (2, Some 202), (3, Some 203),
               (4, Some 204), (5, None), (6, None), (7, Some 207),
               (8, Some 208), (9, Some 209), (10, Some 210), (11, Some 211)]],
           FromPretrained ''llm/fine-tune/amazon-chronos-t5-tiny'',
           Predict
             [[100, 101, 102, 103, 104, 107, 108, 109, 110, 111],
              [200, 201, 202, 203, 204, 207, 208, 209, 210, 211]] 3,
           Minimize [''AAA'', ''BBB''] [1 / 2, 1 / 2],
           SetHoldings [PortfolioTarget ''AAA'' (1 / 4), PortfolioTarget ''BBB'' (3 / 4)] True]\<rparr>,
      Inr ())"
  apply (simp add: trade_def example_algorithm_def initialize_def timedelta_def datetime_min_def)
  apply (simp add: scenario_defs converged_solver_def)
  done

lemma late_trade:
  "trade env (example_algorithm\<lparr>last_rebalance := timedelta 736978\<rparr>) =
     trade env example_algorithm"
  by (simp add: trade_def example_algorithm_def initialize_def timedelta_def datetime_min_def)

lemma converged_trade_changed:
  "example_algorithm\<lparr>last_rebalance := timedelta 737059,
        holdings := [PortfolioTarget ''AAA'' (1 / 4), PortfolioTarget ''BBB'' (3 / 4)],
        calls := cs\<rparr> \<noteq> example_algorithm"
proof
  assume "example_algorithm\<lparr>last_rebalance := timedelta 737059,
        holdings := [PortfolioTarget ''AAA'' (1 / 4), PortfolioTarget ''BBB'' (3 / 4)],
        calls := cs\<rparr> = example_algorithm"
  then have "holdings (example_algorithm\<lparr>last_rebalance := timedelta 737059,
        holdings := [PortfolioTarget ''AAA'' (1 / 4), PortfolioTarget ''BBB'' (3 / 4)],
        calls := cs\<rparr>) = holdings example_algorithm" by simp
  then show False by (simp add: example_algorithm_def initialize_def)
qed

section \<open>The claims\<close>

subsection \<open>The optimizer\<close>



text \<open>
  C2, as the code has it. The claim reads: a solver that does not converge is surfaced
  as an error that aborts the rebalance, the initial guess is never returned silently,
  and one solver attempt is made per rebalance. \<^verbatim>\<open>_optimize_portfolio\<close> never reads
  \<^verbatim>\<open>result.success\<close>: on at least one column it calls the solver exactly once, hands
  on an exception the solver raises, and otherwise returns the solver's vector
  \<^verbatim>\<open>result.x\<close> whatever the solver reports about convergence. A tick makes at most one
  solver attempt, and a rebalance that completes has made exactly one.
\<close>

theorem solver_result_used_as_is:
  "(equity_curves \<noteq> [] \<longrightarrow>
      solver_calls (calls (fst (optimize_portfolio env equity_curves s))) =
        solver_calls (calls s) + 1 \<and>
      snd (optimize_portfolio env equity_curves s) =
        (case minimize env
                (\<lambda>weights. sharpe_ratio weights
                   (dropna_rows (frame_pct_change equity_curves))
                   (get_interest_rate env (time s)) 252)
                (replicate (length equity_curves) (1 / real (length equity_curves)))
                (replicate (length equity_curves) (0, 1))
                (\<lambda>weights. sum_list weights - 1) of
           Inl e \<Rightarrow> Inl e
         | Inr result \<Rightarrow> Inr (result_x result))) \<and>
   (\<forall>s' out. trade env s = (s', out) \<longrightarrow>
      solver_calls (calls s') \<le> solver_calls (calls s) + 1 \<and>
      (out = Inr () \<and> s' \<noteq> s \<longrightarrow> solver_calls (calls s') = solver_calls (calls s) + 1))"
proof (intro conjI allI impI)
  assume ne: "equity_curves \<noteq> []"
  then show "solver_calls (calls (fst (optimize_portfolio env equity_curves s))) =
        solver_calls (calls s) + 1"
    by (simp add: optimize_portfolio_state logged_def solver_calls_append)
  from ne show "snd (optimize_portfolio env equity_curves s) =
        (case minimize env
                (\<lambda>weights. sharpe_ratio weights
                   (dropna_rows (frame_pct_change equity_curves))
                   (get_interest_rate env (time s)) 252)
                (replicate (length equity_curves) (1 / real (length equity_curves)))
                (replicate (length equity_curves) (0, 1))
                (\<lambda>weights. sum_list weights - 1) of
           Inl e \<Rightarrow> Inl e
         | Inr result \<Rightarrow> Inr (result_x result))"
    by (simp add: optimize_portfolio_value)
next
  fix s' out
  assume t: "trade env s = (s', out)"
  show "solver_calls (calls s') \<le> solver_calls (calls s) + 1"
  proof (cases "s' = s")
    case True
    then show ?thesis by simp
  next
    case False
    from rebalance_solver_calls [OF trade_rebalanced [OF t False]] show ?thesis by simp
  qed
next
  fix s' out
  assume t: "trade env s = (s', out)" and o: "out = Inr () \<and> s' \<noteq> s"
  then have "rebalance env (s\<lparr>last_rebalance := time s\<rparr>) = (s', Inr ())"
    using trade_rebalanced [of env s s' out] by simp
  from rebalance_success [OF this] obtain cs where
    "calls s' = calls s @ cs" and "solver_calls cs = 1" by auto
  then show "solver_calls (calls s') = solver_calls (calls s) + 1"
    by (simp add: solver_calls_append)
qed

theorem solver_result_used_as_is_witness:
  "[(''AAA'', [111, 112, 113]), (''BBB'', [211, 214, 217 :: real])] \<noteq> [] \<and>
   solver_calls (calls (fst (optimize_portfolio (example_services converged_solver)
       [(''AAA'', [111, 112, 113]), (''BBB'', [211, 214, 217])] example_algorithm))) = 1 \<and>
   snd (optimize_portfolio (example_services converged_solver)
       [(''AAA'', [111, 112, 113]), (''BBB'', [211, 214, 217])] example_algorithm) =
     Inr [1 / 4, 3 / 4] \<and>
   solver_calls (calls (fst (trade (example_services converged_solver) example_algorithm))) = 1"
proof -
  let ?env = "example_services converged_solver"
  let ?curves = "[(''AAA'', [111, 112, 113]), (''BBB'', [211, 214, 217 :: real])]"
  have ne: "?curves \<noteq> []" by simp
  have c0: "solver_calls (calls example_algorithm) = 0"
    by (simp add: example_algorithm_def initialize_def)
  note inst = solver_result_used_as_is [of ?curves ?env example_algorithm]
  from inst ne have
    a: "solver_calls (calls (fst (optimize_portfolio ?env ?curves example_algorithm))) =
          solver_calls (calls example_algorithm) + 1"
    and b: "snd (optimize_portfolio ?env ?curves example_algorithm) =
        (case minimize ?env
                (\<lambda>weights. sharpe_ratio weights
                   (dropna_rows (frame_pct_change ?curves))
                   (get_interest_rate ?env (time example_algorithm)) 252)
                (replicate (length ?curves) (1 / real (length ?curves)))
                (replicate (length ?curves) (0, 1))
                (\<lambda>weights. sum_list weights - 1) of
           Inl e \<Rightarrow> Inl e
         | Inr result \<Rightarrow> Inr (result_x result))"
    by blast+
  from b have b': "snd (optimize_portfolio ?env ?curves example_algorithm) = Inr [1 / 4, 3 / 4]"
    by (simp add: example_services_def converged_solver_def)
  from inst converged_trade converged_trade_changed
  have "solver_calls (calls (fst (trade ?env example_algorithm))) =
          solver_calls (calls example_algorithm) + 1"
    by (metis fst_conv)
  with a b' c0 ne show ?thesis by simp
qed

text \<open>
  The claim as the spec states it fails: a solver that stops at the equal-weight
  initial guess and reports no success is not surfaced, the guess is returned, and the
  rebalance completes with it.
\<close>

theorem unconverged_solver_not_surfaced:
  "stalled_solver [1 / 2, 1 / 2] = Inr \<lparr>result_x = [1 / 2, 1 / 2], result_success = False\<rparr> \<and>
   snd (optimize_portfolio (example_services stalled_solver)
          [(''AAA'', [111, 112, 113]), (''BBB'', [211, 214, 217])] example_algorithm) =
     Inr [1 / 2, 1 / 2] \<and>
   snd (trade (example_services stalled_solver) example_algorithm) = Inr () \<and>
   holdings (fst (trade (example_services stalled_solver) example_algorithm)) =
     [PortfolioTarget ''AAA'' (1 / 2), PortfolioTarget ''BBB'' (1 / 2)]"
proof (intro conjI)
  show "stalled_solver [1 / 2, 1 / 2] = Inr \<lparr>result_x = [1 / 2, 1 / 2], result_success = False\<rparr>"
    by (simp add: stalled_solver_def)
  show "snd (optimize_portfolio (example_services stalled_solver)
          [(''AAA'', [111, 112, 113]), (''BBB'', [211, 214, 217])] example_algorithm) =
     Inr [1 / 2, 1 / 2]"
    by (simp add: optimize_portfolio_def example_services_def stalled_solver_def Let_def)
  have t: "trade (example_services stalled_solver) example_algorithm =
     rebalance (example_services stalled_solver)
       (example_algorithm\<lparr>last_rebalance := time example_algorithm\<rparr>)"
    using example_not_warming by (simp add: trade_def)
  show "snd (trade (example_services stalled_solver) example_algorithm) = Inr ()"
    unfolding t
    by (simp add: example_algorithm_def initialize_def timedelta_def datetime_min_def
        scenario_defs stalled_solver_def)
  show "holdings (fst (trade (example_services stalled_solver) example_algorithm)) =
     [PortfolioTarget ''AAA'' (1 / 2), PortfolioTarget ''BBB'' (1 / 2)]"
    unfolding t
    by (simp add: example_algorithm_def initialize_def timedelta_def datetime_min_def
        scenario_defs stalled_solver_def)
qed

subsection \<open>The schedule\<close>

text \<open>
  C3: with the last rebalance at \<open>T\<close>, a tick at \<open>T\<close> plus 79 days does nothing (the
  state, and with it the log of calls, is unchanged: no history is fetched, nothing is
  trained), and no tick rebalances while the algorithm is warming up. A tick at \<open>T\<close>
  plus 81 days outside the warm-up performs the rebalance: the marker moves to the
  tick and the history is requested first; if the tick ends in an exception the
  holdings are untouched; if it ends normally, the history was fetched, the training
  data gathered, the model trained and loaded, the forecasts drawn and reduced, the
  optimizer run, and the six calls were made in this order, the last one
  \<^verbatim>\<open>set_holdings\<close> with the targets that are the new holdings; and whenever every one
  of these steps succeeds, the tick does end normally with those targets held.
\<close>

theorem trade_quarterly_spacing:
  "(is_warming_up s \<longrightarrow> trade env s = (s, Inr ())) \<and>
   (time s = last_rebalance s + timedelta 79 \<longrightarrow> trade env s = (s, Inr ())) \<and>
   (\<not> is_warming_up s \<and> time s = last_rebalance s + timedelta 81 \<longrightarrow>
      last_rebalance (fst (trade env s)) = time s \<and>
      (\<exists>cs. calls (fst (trade env s)) =
              calls s @ History (selected s) (lookback_period s) # cs) \<and>
      (\<forall>e. snd (trade env s) = Inl e \<longrightarrow>
         holdings (fst (trade env s)) = holdings s \<and>
         set_holdings_calls (calls (fst (trade env s))) = set_holdings_calls (calls s)) \<and>
      (snd (trade env s) = Inr () \<longrightarrow>
         (\<exists>hist training path pipeline inputs all_forecasts forecasts_df x0 w.
            history env (selected s) (lookback_period s) = Inr hist \<and>
            gather hist (selected s) [] = Inr training \<and>
            training \<noteq> [] \<and>
            trainer env (map snd training) = Inr path \<and>
            from_pretrained env path = Inr pipeline \<and>
            forecast_inputs hist (map fst training) = Inr inputs \<and>
            predict env pipeline inputs (prediction_length s) = Inr all_forecasts \<and>
            median_forecasts all_forecasts (map fst training) = Inr forecasts_df \<and>
            snd (optimize_portfolio env forecasts_df s) = Inr w \<and>
            portfolio_targets w (enumerate 0 (map fst training)) =
              Inr (holdings (fst (trade env s))) \<and>
            calls (fst (trade env s)) = calls s @
              [History (selected s) (lookback_period s), Train (map snd training),
               FromPretrained path, Predict inputs (prediction_length s),
               Minimize (map fst forecasts_df) x0,
               SetHoldings (holdings (fst (trade env s))) True])) \<and>
      (\<forall>hist training path pipeline inputs all_forecasts forecasts_df w targets.
         history env (selected s) (lookback_period s) = Inr hist \<and>
         gather hist (selected s) [] = Inr training \<and>
         training \<noteq> [] \<and>
         trainer env (map snd training) = Inr path \<and>
         from_pretrained env path = Inr pipeline \<and>
         forecast_inputs hist (map fst training) = Inr inputs \<and>
         predict env pipeline inputs (prediction_length s) = Inr all_forecasts \<and>
         median_forecasts all_forecasts (map fst training) = Inr forecasts_df \<and>
         snd (optimize_portfolio env forecasts_df s) = Inr w \<and>
         portfolio_targets w (enumerate 0 (map fst training)) = Inr targets \<longrightarrow>
           snd (trade env s) = Inr () \<and> holdings (fst (trade env s)) = targets))"
proof (intro conjI)
  show "is_warming_up s \<longrightarrow> trade env s = (s, Inr ())" by (simp add: trade_def)
  show "time s = last_rebalance s + timedelta 79 \<longrightarrow> trade env s = (s, Inr ())"
    by (simp add: trade_def timedelta_def)
  show "\<not> is_warming_up s \<and> time s = last_rebalance s + timedelta 81 \<longrightarrow>
      last_rebalance (fst (trade env s)) = time s \<and>
      (\<exists>cs. calls (fst (trade env s)) =
              calls s @ History (selected s) (lookback_period s) # cs) \<and>
      (\<forall>e. snd (trade env s) = Inl e \<longrightarrow>
         holdings (fst (trade env s)) = holdings s \<and>
         set_holdings_calls (calls (fst (trade env s))) = set_holdings_calls (calls s)) \<and>
      (snd (trade env s) = Inr () \<longrightarrow>
         (\<exists>hist training path pipeline inputs all_forecasts forecasts_df x0 w.
            history env (selected s) (lookback_period s) = Inr hist \<and>
            gather hist (selected s) [] = Inr training \<and>
            training \<noteq> [] \<and>
            trainer env (map snd training) = Inr path \<and>
            from_pretrained env path = Inr pipeline \<and>
            forecast_inputs hist (map fst training) = Inr inputs \<and>
            predict env pipeline inputs (prediction_length s) = Inr all_forecasts \<and>
            median_forecasts all_forecasts (map fst training) = Inr forecasts_df \<and>
            snd (optimize_portfolio env forecasts_df s) = Inr w \<and>
            portfolio_targets w (enumerate 0 (map fst training)) =
              Inr (holdings (fst (trade env s))) \<and>
            calls (fst (trade env s)) = calls s @
              [History (selected s) (lookback_period s), Train (map snd training),
               FromPretrained path, Predict inputs (prediction_length s),
               Minimize (map fst forecasts_df) x0,
               SetHoldings (holdings (fst (trade env s))) True])) \<and>
      (\<forall>hist training path pipeline inputs all_forecasts forecasts_df w targets.
         history env (selected s) (lookback_period s) = Inr hist \<and>
         gather hist (selected s) [] = Inr training \<and>
         training \<noteq> [] \<and>
         trainer env (map snd training) = Inr path \<and>
         from_pretrained env path = Inr pipeline \<and>
         forecast_inputs hist (map fst training) = Inr inputs \<and>
         predict env pipeline inputs (prediction_length s) = Inr all_forecasts \<and>
         median_forecasts all_forecasts (map fst training) = Inr forecasts_df \<and>
         snd (optimize_portfolio env forecasts_df s) = Inr w \<and>
         portfolio_targets w (enumerate 0 (map fst training)) = Inr targets \<longrightarrow>
           snd (trade env s) = Inr () \<and> holdings (fst (trade env s)) = targets)"
  proof
    assume a: "\<not> is_warming_up s \<and> time s = last_rebalance s + timedelta 81"
    let ?s = "s\<lparr>last_rebalance := time s\<rparr>"
    from a have t: "trade env s = rebalance env ?s"
      by (simp add: trade_def timedelta_def)
    obtain s' out where r: "rebalance env ?s = (s', out)"
      by (cases "rebalance env ?s")
    have f: "fst (trade env s) = s'" and o: "snd (trade env s) = out" using t r by simp_all
    from rebalance_frame [OF r] have c1: "last_rebalance s' = time s"
      and c2: "\<exists>cs. calls s' = calls s @ History (selected s) (lookback_period s) # cs"
      by simp_all
    have c3: "\<forall>e. out = Inl e \<longrightarrow> holdings s' = holdings s \<and>
         set_holdings_calls (calls s') = set_holdings_calls (calls s)"
      using rebalance_holdings [OF r] by auto
    have c4: "out = Inr () \<longrightarrow>
         (\<exists>hist training path pipeline inputs all_forecasts forecasts_df x0 w.
            history env (selected s) (lookback_period s) = Inr hist \<and>
            gather hist (selected s) [] = Inr training \<and>
            training \<noteq> [] \<and>
            trainer env (map snd training) = Inr path \<and>
            from_pretrained env path = Inr pipeline \<and>
            forecast_inputs hist (map fst training) = Inr inputs \<and>
            predict env pipeline inputs (prediction_length s) = Inr all_forecasts \<and>
            median_forecasts all_forecasts (map fst training) = Inr forecasts_df \<and>
            snd (optimize_portfolio env forecasts_df s) = Inr w \<and>
            portfolio_targets w (enumerate 0 (map fst training)) = Inr (holdings s') \<and>
            calls s' = calls s @
              [History (selected s) (lookback_period s), Train (map snd training),
               FromPretrained path, Predict inputs (prediction_length s),
               Minimize (map fst forecasts_df) x0, SetHoldings (holdings s') True])"
    proof
      assume "out = Inr ()"
      with r have r': "rebalance env ?s = (s', Inr ())" by simp
      have tm: "time ?s = time s" by simp
      from rebalance_success [OF r']
      show "\<exists>hist training path pipeline inputs all_forecasts forecasts_df x0 w.
            history env (selected s) (lookback_period s) = Inr hist \<and>
            gather hist (selected s) [] = Inr training \<and>
            training \<noteq> [] \<and>
            trainer env (map snd training) = Inr path \<and>
            from_pretrained env path = Inr pipeline \<and>
            forecast_inputs hist (map fst training) = Inr inputs \<and>
            predict env pipeline inputs (prediction_length s) = Inr all_forecasts \<and>
            median_forecasts all_forecasts (map fst training) = Inr forecasts_df \<and>
            snd (optimize_portfolio env forecasts_df s) = Inr w \<and>
            portfolio_targets w (enumerate 0 (map fst training)) = Inr (holdings s') \<and>
            calls s' = calls s @
              [History (selected s) (lookback_period s), Train (map snd training),
               FromPretrained path, Predict inputs (prediction_length s),
               Minimize (map fst forecasts_df) x0, SetHoldings (holdings s') True]"
        unfolding optimize_portfolio_time [OF tm] by simp
    qed
    have c5: "\<forall>hist training path pipeline inputs all_forecasts forecasts_df w targets.
         history env (selected s) (lookback_period s) = Inr hist \<and>
         gather hist (selected s) [] = Inr training \<and>
         training \<noteq> [] \<and>
         trainer env (map snd training) = Inr path \<and>
         from_pretrained env path = Inr pipeline \<and>
         forecast_inputs hist (map fst training) = Inr inputs \<and>
         predict env pipeline inputs (prediction_length s) = Inr all_forecasts \<and>
         median_forecasts all_forecasts (map fst training) = Inr forecasts_df \<and>
         snd (optimize_portfolio env forecasts_df s) = Inr w \<and>
         portfolio_targets w (enumerate 0 (map fst training)) = Inr targets \<longrightarrow>
           out = Inr () \<and> holdings s' = targets"
    proof (intro allI impI)
      fix hist training path pipeline inputs all_forecasts forecasts_df w targets
      assume h: "history env (selected s) (lookback_period s) = Inr hist \<and>
         gather hist (selected s) [] = Inr training \<and>
         training \<noteq> [] \<and>
         trainer env (map snd training) = Inr path \<and>
         from_pretrained env path = Inr pipeline \<and>
         forecast_inputs hist (map fst training) = Inr inputs \<and>
         predict env pipeline inputs (prediction_length s) = Inr all_forecasts \<and>
         median_forecasts all_forecasts (map fst training) = Inr forecasts_df \<and>
         snd (optimize_portfolio env forecasts_df s) = Inr w \<and>
         portfolio_targets w (enumerate 0 (map fst training)) = Inr targets"
      have tm: "time ?s = time s" by simp
      have "snd (rebalance env ?s) = Inr () \<and> holdings (fst (rebalance env ?s)) = targets"
      proof (rule rebalance_completes)
        show "history env (selected ?s) (lookback_period ?s) = Inr hist" using h by simp
        show "gather hist (selected ?s) [] = Inr training" using h by simp
        show "training \<noteq> []" using h by simp
        show "trainer env (map snd training) = Inr path" using h by simp
        show "from_pretrained env path = Inr pipeline" using h by simp
        show "forecast_inputs hist (map fst training) = Inr inputs" using h by simp
        show "predict env pipeline inputs (prediction_length ?s) = Inr all_forecasts"
          using h by simp
        show "median_forecasts all_forecasts (map fst training) = Inr forecasts_df"
          using h by simp
        show "snd (optimize_portfolio env forecasts_df ?s) = Inr w"
          using h optimize_portfolio_time [OF tm, of env forecasts_df] by simp
        show "portfolio_targets w (enumerate 0 (map fst training)) = Inr targets"
          using h by simp
      qed
      with r show "out = Inr () \<and> holdings s' = targets" by simp
    qed
    from c1 c2 c3 c4 c5 show "last_rebalance (fst (trade env s)) = time s \<and>
      (\<exists>cs. calls (fst (trade env s)) =
              calls s @ History (selected s) (lookback_period s) # cs) \<and>
      (\<forall>e. snd (trade env s) = Inl e \<longrightarrow>
         holdings (fst (trade env s)) = holdings s \<and>
         set_holdings_calls (calls (fst (trade env s))) = set_holdings_calls (calls s)) \<and>
      (snd (trade env s) = Inr () \<longrightarrow>
         (\<exists>hist training path pipeline inputs all_forecasts forecasts_df x0 w.
            history env (selected s) (lookback_period s) = Inr hist \<and>
            gather hist (selected s) [] = Inr training \<and>
            training \<noteq> [] \<and>
            trainer env (map snd training) = Inr path \<and>
            from_pretrained env path = Inr pipeline \<and>
            forecast_inputs hist (map fst training) = Inr inputs \<and>
            predict env pipeline inputs (prediction_length s) = Inr all_forecasts \<and>
            median_forecasts all_forecasts (map fst training) = Inr forecasts_df \<and>
            snd (optimize_portfolio env forecasts_df s) = Inr w \<and>
            portfolio_targets w (enumerate 0 (map fst training)) =
              Inr (holdings (fst (trade env s))) \<and>
            calls (fst (trade env s)) = calls s @
              [History (selected s) (lookback_period s), Train (map snd training),
               FromPretrained path, Predict inputs (prediction_length s),
               Minimize (map fst forecasts_df) x0,
               SetHoldings (holdings (fst (trade env s))) True])) \<and>
      (\<forall>hist training path pipeline inputs all_forecasts forecasts_df w targets.
         history env (selected s) (lookback_period s) = Inr hist \<and>
         gather hist (selected s) [] = Inr training \<and>
         training \<noteq> [] \<and>
         trainer env (map snd training) = Inr path \<and>
         from_pretrained env path = Inr pipeline \<and>
         forecast_inputs hist (map fst training) = Inr inputs \<and>
         predict env pipeline inputs (prediction_length s) = Inr all_forecasts \<and>
         median_forecasts all_forecasts (map fst training) = Inr forecasts_df \<and>
         snd (optimize_portfolio env forecasts_df s) = Inr w \<and>
         portfolio_targets w (enumerate 0 (map fst training)) = Inr targets \<longrightarrow>
           snd (trade env s) = Inr () \<and> holdings (fst (trade env s)) = targets)"
      unfolding f o by blast
  qed
qed

theorem trade_quarterly_spacing_witness:
  "is_warming_up (initialize (timedelta 737059) [''AAA'']) \<and>
   trade (example_services converged_solver) (initialize (timedelta 737059) [''AAA'']) =
     (initialize (timedelta 737059) [''AAA''], Inr ()) \<and>
   time (example_algorithm\<lparr>last_rebalance := timedelta 736980\<rparr>) =
     last_rebalance (example_algorithm\<lparr>last_rebalance := timedelta 736980\<rparr>) + timedelta 79 \<and>
   trade (example_services converged_solver)
       (example_algorithm\<lparr>last_rebalance := timedelta 736980\<rparr>) =
     (example_algorithm\<lparr>last_rebalance := timedelta 736980\<rparr>, Inr ()) \<and>
   \<not> is_warming_up (example_algorithm\<lparr>last_rebalance := timedelta 736978\<rparr>) \<and>
   time (example_algorithm\<lparr>last_rebalance := timedelta 736978\<rparr>) =
     last_rebalance (example_algorithm\<lparr>last_rebalance := timedelta 736978\<rparr>) + timedelta 81 \<and>
   last_rebalance (fst (trade (example_services converged_solver)
       (example_algorithm\<lparr>last_rebalance := timedelta 736978\<rparr>))) = timedelta 737059 \<and>
   snd (trade (example_services converged_solver)
       (example_algorithm\<lparr>last_rebalance := timedelta 736978\<rparr>)) = Inr () \<and>
   (\<exists>data path inputs tradable x0.
      calls (fst (trade (example_services converged_solver)
         (example_algorithm\<lparr>last_rebalance := timedelta 736978\<rparr>))) =
        [History [''AAA'', ''NEW'', ''BBB''] (timedelta 365), Train data, FromPretrained path,
         Predict inputs 3, Minimize tradable x0,
         SetHoldings [PortfolioTarget ''AAA'' (1 / 4), PortfolioTarget ''BBB'' (3 / 4)] True])"
proof -
  let ?env = "example_services converged_solver"
  let ?s0 = "initialize (timedelta 737059) [''AAA'']"
  let ?s79 = "example_algorithm\<lparr>last_rebalance := timedelta 736980\<rparr>"
  let ?s81 = "example_algorithm\<lparr>last_rebalance := timedelta 736978\<rparr>"
  have w0: "is_warming_up ?s0" by (simp add: initialize_def)
  have t79: "time ?s79 = last_rebalance ?s79 + timedelta 79"
    by (simp add: example_algorithm_def initialize_def timedelta_def)
  have h81: "\<not> is_warming_up ?s81 \<and> time ?s81 = last_rebalance ?s81 + timedelta 81"
    by (simp add: example_algorithm_def initialize_def timedelta_def)
  have tm: "time ?s81 = timedelta 737059"
    by (simp add: example_algorithm_def initialize_def)
  have c0: "calls ?s81 = []" and sel: "selected ?s81 = [''AAA'', ''NEW'', ''BBB'']"
    and lb: "lookback_period ?s81 = timedelta 365" and pl: "prediction_length ?s81 = 3"
    by (simp_all add: example_algorithm_def initialize_def)
  have fin: "snd (trade ?env ?s81) = Inr ()"
    and held: "holdings (fst (trade ?env ?s81)) =
      [PortfolioTarget ''AAA'' (1 / 4), PortfolioTarget ''BBB'' (3 / 4)]"
    by (simp_all add: late_trade converged_trade)
  from trade_quarterly_spacing [of ?s0 ?env] w0
  have a: "trade ?env ?s0 = (?s0, Inr ())" by blast
  from trade_quarterly_spacing [of ?s79 ?env] t79
  have b: "trade ?env ?s79 = (?s79, Inr ())" by blast
  note inst = trade_quarterly_spacing [of ?s81 ?env]
  note third = inst [THEN conjunct2, THEN conjunct2, THEN mp, OF h81]
  from third have m: "last_rebalance (fst (trade ?env ?s81)) = time ?s81" by (rule conjunct1)
  note cycle = third [THEN conjunct2, THEN conjunct2, THEN conjunct2, THEN conjunct1, THEN mp, OF fin]
  from cycle have "\<exists>data path inputs tradable x0.
      calls (fst (trade ?env ?s81)) = calls ?s81 @
       [History (selected ?s81) (lookback_period ?s81), Train data,
        FromPretrained path, Predict inputs (prediction_length ?s81),
        Minimize tradable x0,
        SetHoldings (holdings (fst (trade ?env ?s81))) True]"
    by (elim exE conjE) (intro exI, assumption)
  then have c: "\<exists>data path inputs tradable x0.
      calls (fst (trade ?env ?s81)) =
        [History [''AAA'', ''NEW'', ''BBB''] (timedelta 365), Train data, FromPretrained path,
         Predict inputs 3, Minimize tradable x0,
         SetHoldings [PortfolioTarget ''AAA'' (1 / 4), PortfolioTarget ''BBB'' (3 / 4)] True]"
    unfolding c0 sel lb pl held by simp
  from w0 a t79 b h81 m [unfolded tm] fin c show ?thesis by blast
qed

text \<open>
  C10: a tick that passes the warm-up test and the spacing test sets the marker to the
  tick's time before any work that can fail, so whatever the outcome, an exception
  included, the marker has moved, and every later tick less than 80 days after it
  returns at once.
\<close>

theorem trade_marker_set_before_work:
  assumes "\<not> is_warming_up s" and "timedelta 80 \<le> time s - last_rebalance s"
    and "trade env s = (s', out)"
  shows "last_rebalance s' = time s \<and>
         (\<forall>env' t. t - time s < timedelta 80 \<longrightarrow>
            trade env' (s'\<lparr>time := t\<rparr>) = (s'\<lparr>time := t\<rparr>, Inr ()))"
proof -
  from assms have r: "rebalance env (s\<lparr>last_rebalance := time s\<rparr>) = (s', out)"
    by (simp add: trade_def)
  from rebalance_frame [OF r] have m: "last_rebalance s' = time s" by simp
  then show ?thesis by (simp add: trade_def)
qed

theorem trade_marker_set_before_work_witness:
  "\<not> is_warming_up example_algorithm \<and>
   timedelta 80 \<le> time example_algorithm - last_rebalance example_algorithm \<and>
   snd (trade failing_history example_algorithm) = Inl (LibraryError ''no data'') \<and>
   last_rebalance (fst (trade failing_history example_algorithm)) = time example_algorithm \<and>
   trade (example_services converged_solver)
     ((fst (trade failing_history example_algorithm))\<lparr>time := timedelta (737059 + 79)\<rparr>) =
     ((fst (trade failing_history example_algorithm))\<lparr>time := timedelta (737059 + 79)\<rparr>, Inr ())"
proof -
  from example_not_warming have a: "\<not> is_warming_up example_algorithm"
    and b: "timedelta 80 \<le> time example_algorithm - last_rebalance example_algorithm"
    by simp_all
  have c: "timedelta (737059 + 79) - time example_algorithm < timedelta 80"
    by (simp add: example_algorithm_def initialize_def timedelta_def)
  let ?s' = "example_algorithm\<lparr>last_rebalance := timedelta 737059,
        calls := [History [''AAA'', ''NEW'', ''BBB''] (timedelta 365)]\<rparr>"
  from trade_marker_set_before_work [OF a b failing_trade]
  have m: "last_rebalance ?s' = time example_algorithm"
    and n: "\<forall>env' t. t - time example_algorithm < timedelta 80 \<longrightarrow>
              trade env' (?s'\<lparr>time := t\<rparr>) = (?s'\<lparr>time := t\<rparr>, Inr ())"
    by blast+
  from n c have "trade (example_services converged_solver) (?s'\<lparr>time := timedelta (737059 + 79)\<rparr>) =
      (?s'\<lparr>time := timedelta (737059 + 79)\<rparr>, Inr ())" by blast
  with m a b show ?thesis unfolding failing_trade fst_conv snd_conv by blast
qed

subsection \<open>One rebalance\<close>

text \<open>
  C5: a rebalance is all or nothing for the holdings. When the tick ends in an
  exception, the holdings are the ones before it and no \<^verbatim>\<open>set_holdings\<close> call was
  made; when it ends normally, either nothing happened at all (the tick was skipped)
  or exactly one \<^verbatim>\<open>set_holdings\<close> call was made, with liquidation, and its targets
  are the new holdings.
\<close>

theorem rebalance_all_or_nothing:
  assumes "trade env s = (s', out)"
  shows "case out of
           Inl e \<Rightarrow> holdings s' = holdings s \<and>
                    set_holdings_calls (calls s') = set_holdings_calls (calls s)
         | Inr u \<Rightarrow> s' = s \<or>
                    set_holdings_calls (calls s') =
                      set_holdings_calls (calls s) @ [(holdings s', True)]"
proof (cases "is_warming_up s \<or> time s - last_rebalance s < timedelta 80")
  case True
  with assms show ?thesis by (auto simp: trade_def split: if_splits)
next
  case False
  with assms have r: "rebalance env (s\<lparr>last_rebalance := time s\<rparr>) = (s', out)"
    by (simp add: trade_def)
  from rebalance_holdings [OF r] show ?thesis by (auto split: sum.splits)
qed

theorem rebalance_all_or_nothing_witness:
  "snd (trade failing_history example_algorithm) = Inl (LibraryError ''no data'') \<and>
   holdings (fst (trade failing_history example_algorithm)) = holdings example_algorithm \<and>
   set_holdings_calls (calls (fst (trade failing_history example_algorithm))) =
     set_holdings_calls (calls example_algorithm) \<and>
   snd (trade (example_services converged_solver) example_algorithm) = Inr () \<and>
   set_holdings_calls (calls (fst (trade (example_services converged_solver) example_algorithm))) =
     set_holdings_calls (calls example_algorithm) @
       [([PortfolioTarget ''AAA'' (1 / 4), PortfolioTarget ''BBB'' (3 / 4)], True)]"
proof -
  from rebalance_all_or_nothing [OF failing_trade]
  have f: "holdings (fst (trade failing_history example_algorithm)) = holdings example_algorithm \<and>
     set_holdings_calls (calls (fst (trade failing_history example_algorithm))) =
       set_holdings_calls (calls example_algorithm)"
    by (simp add: failing_trade)
  from rebalance_all_or_nothing [OF converged_trade] converged_trade_changed
  have "set_holdings_calls (calls (fst (trade (example_services converged_solver) example_algorithm))) =
     set_holdings_calls (calls example_algorithm) @
       [([PortfolioTarget ''AAA'' (1 / 4), PortfolioTarget ''BBB'' (3 / 4)], True)]"
    by (simp add: converged_trade)
  with f show ?thesis by (simp add: failing_trade converged_trade)
qed

text \<open>
  C4: in a rebalance that completes, one list of tradable symbols, without repeats,
  is used throughout and in one order: the training series are one per symbol, the
  forecast inputs are the close prices of the symbols position by position, the columns
  of the forecast frame given to the optimizer are the symbols, and the targets given
  to \<^verbatim>\<open>set_holdings\<close> pair symbol \<open>i\<close> with weight \<open>i\<close> of the optimizer's vector.
\<close>

theorem tradable_symbols_aligned:
  assumes "trade env s = (s', Inr ())" and "s' \<noteq> s"
  shows "\<exists>hist tradable data path pipeline inputs all_forecasts forecasts_df x0 w.
     history env (selected s) (lookback_period s) = Inr hist \<and>
     calls s' = calls s @
       [History (selected s) (lookback_period s), Train data, FromPretrained path,
        Predict inputs (prediction_length s), Minimize tradable x0,
        SetHoldings (holdings s') True] \<and>
     distinct tradable \<and> length data = length tradable \<and>
     list_all2 (\<lambda>symbol input. \<exists>col. map_of hist symbol = Some col \<and>
                  input = map snd (dropna col)) tradable inputs \<and>
     predict env pipeline inputs (prediction_length s) = Inr all_forecasts \<and>
     median_forecasts all_forecasts tradable = Inr forecasts_df \<and>
     map fst forecasts_df = tradable \<and>
     snd (optimize_portfolio env forecasts_df s) = Inr w \<and>
     length tradable \<le> length w \<and>
     holdings s' = map2 PortfolioTarget tradable w"
proof -
  let ?s = "s\<lparr>last_rebalance := time s\<rparr>"
  from trade_rebalanced [OF assms] have r: "rebalance env ?s = (s', Inr ())" .
  from rebalance_success [OF r] obtain hist training path pipeline inputs all_forecasts
    forecasts_df x0 w where
    h: "history env (selected s) (lookback_period s) = Inr hist"
    and g: "gather hist (selected s) [] = Inr training"
    and i: "forecast_inputs hist (map fst training) = Inr inputs"
    and a: "predict env pipeline inputs (prediction_length s) = Inr all_forecasts"
    and m: "median_forecasts all_forecasts (map fst training) = Inr forecasts_df"
    and w: "snd (optimize_portfolio env forecasts_df ?s) = Inr w"
    and pt: "portfolio_targets w (enumerate 0 (map fst training)) = Inr (holdings s')"
    and cs: "calls s' = calls s @
       [History (selected s) (lookback_period s), Train (map snd training),
        FromPretrained path, Predict inputs (prediction_length s),
        Minimize (map fst forecasts_df) x0, SetHoldings (holdings s') True]"
    by auto
  let ?tradable = "map fst training"
  from gather_distinct [OF g] have d: "distinct ?tradable" by simp
  from median_forecasts_columns [OF m d] have c: "map fst forecasts_df = ?tradable" .
  have w': "snd (optimize_portfolio env forecasts_df s) = Inr w"
    using w optimize_portfolio_time [of ?s s env forecasts_df] by simp
  from portfolio_targets_aligned [OF pt]
  have len: "length ?tradable \<le> length w"
    and hs: "holdings s' = map2 PortfolioTarget ?tradable (take (length ?tradable) w)"
    by auto
  have "zip ?tradable (take (length ?tradable) w) = zip ?tradable w"
    by (rule zip_take_length)
  with hs have hs': "holdings s' = map2 PortfolioTarget ?tradable w" by simp
  have ld: "length (map snd training) = length ?tradable" by simp
  note cs' = cs [unfolded c]
  note al = forecast_inputs_aligned [OF i]
  show ?thesis
    by (intro exI conjI) (rule h cs' d ld al a m c w' len hs')+
qed

theorem tradable_symbols_aligned_witness:
  "snd (trade (example_services converged_solver) example_algorithm) = Inr () \<and>
   fst (trade (example_services converged_solver) example_algorithm) \<noteq> example_algorithm \<and>
   (\<exists>tradable w. distinct tradable \<and> length tradable \<le> length w \<and>
      holdings (fst (trade (example_services converged_solver) example_algorithm)) =
        map2 PortfolioTarget tradable w \<and>
      (\<exists>x0. Minimize tradable x0 \<in>
         set (calls (fst (trade (example_services converged_solver) example_algorithm)))))"
proof -
  let ?s' = "fst (trade (example_services converged_solver) example_algorithm)"
  have t: "trade (example_services converged_solver) example_algorithm = (?s', Inr ())"
    by (simp add: converged_trade)
  have n: "?s' \<noteq> example_algorithm"
    by (simp add: converged_trade converged_trade_changed)
  from tradable_symbols_aligned [OF t n] obtain hist tradable data path pipeline inputs
    all_forecasts forecasts_df x0 w where
    cs: "calls ?s' = calls example_algorithm @
       [History (selected example_algorithm) (lookback_period example_algorithm), Train data,
        FromPretrained path, Predict inputs (prediction_length example_algorithm),
        Minimize tradable x0, SetHoldings (holdings ?s') True]"
    and d: "distinct tradable" and len: "length tradable \<le> length w"
    and hs: "holdings ?s' = map2 PortfolioTarget tradable w"
    by blast
  have "Minimize tradable x0 \<in> set (calls ?s')" unfolding cs by simp
  with d len hs have "\<exists>tradable w. distinct tradable \<and> length tradable \<le> length w \<and>
      holdings ?s' = map2 PortfolioTarget tradable w \<and>
      (\<exists>x0. Minimize tradable x0 \<in> set (calls ?s'))"
    by blast
  moreover from t have "snd (trade (example_services converged_solver) example_algorithm) = Inr ()"
    by (simp add: converged_trade)
  ultimately show ?thesis using n by blast
qed

subsection \<open>The training data\<close>

text \<open>
  C6: an asset whose close prices, missing values dropped, are fewer than 10 (or that
  has no column in the history frame at all, where \<^verbatim>\<open>history[[symbol]]\<close> raises) never
  enters the training dictionary, whatever the list of symbols; and in a rebalance
  that completes on that history it is not among the tradable symbols, so it has no
  training series, no forecast input, no column in the optimizer's frame and no
  portfolio target.
\<close>

theorem thin_asset_excluded:
  assumes "case map_of hist symbol of None \<Rightarrow> True | Some col \<Rightarrow> length (dropna col) < 10"
  shows "(\<forall>symbols training. gather hist symbols [] = Inr training \<longrightarrow>
            symbol \<notin> set (map fst training)) \<and>
         (\<forall>env s s'. history env (selected s) (lookback_period s) = Inr hist \<and>
            trade env s = (s', Inr ()) \<and> s' \<noteq> s \<longrightarrow>
              symbol \<notin> target_symbol ` set (holdings s') \<and>
              (\<exists>data path inputs tradable x0.
                 symbol \<notin> set tradable \<and> length data = length tradable \<and>
                 length inputs = length tradable \<and>
                 calls s' = calls s @
                   [History (selected s) (lookback_period s), Train data, FromPretrained path,
                    Predict inputs (prediction_length s), Minimize tradable x0,
                    SetHoldings (holdings s') True]))"
proof (intro conjI allI impI)
  fix symbols training
  assume g: "gather hist symbols [] = Inr training"
  show "symbol \<notin> set (map fst training)"
  proof
    assume "symbol \<in> set (map fst training)"
    from gather_keys [OF g this] assms show False by (auto split: option.splits)
  qed
next
  fix env s s'
  assume a: "history env (selected s) (lookback_period s) = Inr hist \<and>
            trade env s = (s', Inr ()) \<and> s' \<noteq> s"
  let ?s = "s\<lparr>last_rebalance := time s\<rparr>"
  from a trade_rebalanced [of env s s' "Inr ()"] have r: "rebalance env ?s = (s', Inr ())"
    by simp
  from rebalance_success [OF r] a obtain training path inputs all_forecasts forecasts_df x0 w
    where g: "gather hist (selected s) [] = Inr training"
    and i: "forecast_inputs hist (map fst training) = Inr inputs"
    and m: "median_forecasts all_forecasts (map fst training) = Inr forecasts_df"
    and pt: "portfolio_targets w (enumerate 0 (map fst training)) = Inr (holdings s')"
    and cs: "calls s' = calls s @
       [History (selected s) (lookback_period s), Train (map snd training),
        FromPretrained path, Predict inputs (prediction_length s),
        Minimize (map fst forecasts_df) x0, SetHoldings (holdings s') True]"
    by auto
  let ?tradable = "map fst training"
  have n: "symbol \<notin> set ?tradable"
  proof
    assume "symbol \<in> set ?tradable"
    from gather_keys [OF g this] assms show False by (auto split: option.splits)
  qed
  from gather_distinct [OF g] have d: "distinct ?tradable" by simp
  from median_forecasts_columns [OF m d] have c: "map fst forecasts_df = ?tradable" .
  from portfolio_targets_aligned [OF pt]
  have hs: "holdings s' = map2 PortfolioTarget ?tradable (take (length ?tradable) w)"
    by auto
  have "target_symbol ` set (holdings s') \<subseteq> set ?tradable"
    unfolding hs by (auto dest!: set_zip_leftD)
  with n show "symbol \<notin> target_symbol ` set (holdings s')" by auto
  have li: "length inputs = length ?tradable"
    using forecast_inputs_aligned [OF i] by (auto dest: list_all2_lengthD)
  have ld: "length (map snd training) = length ?tradable" by simp
  note cs' = cs [unfolded c]
  show "\<exists>data path inputs tradable x0.
                 symbol \<notin> set tradable \<and> length data = length tradable \<and>
                 length inputs = length tradable \<and>
                 calls s' = calls s @
                   [History (selected s) (lookback_period s), Train data, FromPretrained path,
                    Predict inputs (prediction_length s), Minimize tradable x0,
                    SetHoldings (holdings s') True]"
    by (intro exI conjI) (rule n ld li cs')+
qed

theorem thin_asset_excluded_witness:
  "map_of (example_frame [''AAA'', ''NEW'', ''BBB'']) ''NEW'' = Some [(10, Some 5), (11, None)] \<and>
   length (dropna [(10, Some 5), (11, None)]) < 10 \<and>
   history (example_services converged_solver) (selected example_algorithm)
     (lookback_period example_algorithm) = Inr (example_frame [''AAA'', ''NEW'', ''BBB'']) \<and>
   snd (trade (example_services converged_solver) example_algorithm) = Inr () \<and>
   ''NEW'' \<notin> target_symbol `
     set (holdings (fst (trade (example_services converged_solver) example_algorithm)))"
proof -
  let ?s' = "fst (trade (example_services converged_solver) example_algorithm)"
  have m: "map_of (example_frame [''AAA'', ''NEW'', ''BBB'']) ''NEW'' =
             Some [(10, Some 5), (11, None)]"
    by (simp add: example_frame_def)
  have l: "length (dropna [(10, Some 5), (11, None)]) < 10" by simp
  have h: "history (example_services converged_solver) (selected example_algorithm)
     (lookback_period example_algorithm) = Inr (example_frame [''AAA'', ''NEW'', ''BBB''])"
    by (simp add: example_services_def example_history_def example_algorithm_def initialize_def)
  have t: "trade (example_services converged_solver) example_algorithm = (?s', Inr ())"
    by (simp add: converged_trade)
  have n: "?s' \<noteq> example_algorithm"
    by (simp add: converged_trade converged_trade_changed)
  from m l have c: "case map_of (example_frame [''AAA'', ''NEW'', ''BBB'']) ''NEW'' of
      None \<Rightarrow> True | Some col \<Rightarrow> length (dropna col) < 10"
    by simp
  from thin_asset_excluded [OF c] h t n
  have "''NEW'' \<notin> target_symbol ` set (holdings ?s')" by blast
  with m l h t show ?thesis by (metis snd_conv)
qed

text \<open>
  C7, on the series as the spec describes the resampling: every day of the series
  keeps its price, every calendar day between two days of the series that is not one
  of them appears with the missing marker, no value appears that the series did not
  hold at that day (nothing is interpolated or filled), and no day appears twice.
\<close>

theorem resample_keeps_values_marks_gaps:
  assumes "resample_asfreq df = Inr r"
  shows "(\<forall>d p. (d, p) \<in> set df \<longrightarrow> (d, Some p) \<in> set r) \<and>
         (\<forall>day a b. a \<in> set (map fst df) \<and> b \<in> set (map fst df) \<and> a \<le> day \<and> day \<le> b \<and>
             day \<notin> set (map fst df) \<longrightarrow> (day, None) \<in> set r) \<and>
         (\<forall>d p. (d, Some p) \<in> set r \<longrightarrow> (d, p) \<in> set df) \<and>
         distinct (map fst r)"
proof (cases df)
  case Nil
  with assms show ?thesis by (simp add: resample_asfreq_def)
next
  case (Cons row rows)
  define lo where "lo = fold min (tl (map fst df)) (hd (map fst df))"
  define hi where "hi = fold max (tl (map fst df)) (hd (map fst df))"
  from Cons have ne: "df \<noteq> []" by simp
  from resample_asfreq_Inr [OF assms ne]
  have dist: "distinct (map fst df)"
    and r: "r = map (\<lambda>day. (day, map_of df day)) [lo .. hi]"
    by (simp_all add: lo_def hi_def)
  have span: "lo \<le> x \<and> x \<le> hi" if "x \<in> set (map fst df)" for x
  proof -
    from that Cons have "x = hd (map fst df) \<or> x \<in> set (tl (map fst df))" by auto
    then show ?thesis
      using fold_min_le [of "tl (map fst df)" "hd (map fst df)"]
        fold_max_ge [of "hd (map fst df)" "tl (map fst df)"]
      by (auto simp: lo_def hi_def)
  qed
  have keep: "(d, Some p) \<in> set r" if "(d, p) \<in> set df" for d p
  proof -
    from that have "d \<in> set (map fst df)" by force
    then have "lo \<le> d \<and> d \<le> hi" by (rule span)
    moreover from dist that have "map_of df d = Some p" by simp
    ultimately show ?thesis unfolding r by force
  qed
  have gap: "(day, None) \<in> set r"
    if "a \<in> set (map fst df)" "b \<in> set (map fst df)" "a \<le> day" "day \<le> b"
      "day \<notin> set (map fst df)" for day a b
  proof -
    from span [OF that(1)] span [OF that(2)] that(3,4) have "lo \<le> day \<and> day \<le> hi" by simp
    moreover from that(5) have "map_of df day = None" by (simp add: map_of_eq_None_iff)
    ultimately show ?thesis unfolding r by force
  qed
  have nofill: "(d, p) \<in> set df" if "(d, Some p) \<in> set r" for d p
  proof -
    from that have "map_of df d = Some p" unfolding r by auto
    then show ?thesis by (rule map_of_SomeD)
  qed
  have "distinct (map fst r)" unfolding r by (simp add: comp_def)
  with keep gap nofill show ?thesis by blast
qed

theorem resample_keeps_values_marks_gaps_witness:
  "resample_asfreq [(0, 100), (1, 101), (4, 104)] =
     Inr [(0, Some 100), (1, Some 101), (2, None), (3, None), (4, Some 104)] \<and>
   (1, Some 101) \<in> set [(0, Some 100), (1, Some 101), (2, None), (3, None), (4, Some (104::real))] \<and>
   (3, None) \<in> set [(0, Some 100), (1, Some 101), (2, None), (3, None), (4, Some (104::real))] \<and>
   distinct (map fst [(0, Some 100), (1, Some 101), (2, None), (3, None), (4::int, Some (104::real))])"
proof -
  have r: "resample_asfreq [(0, 100), (1, 101), (4, 104)] =
     Inr [(0, Some 100), (1, Some 101), (2, None), (3, None), (4, Some 104)]"
    by (simp add: resample_asfreq_def upto.simps)
  from resample_keeps_values_marks_gaps [OF r] r show ?thesis by simp
qed

subsection \<open>The objective and the forecast\<close>

text \<open>
  C8: for every weight vector \<open>w\<close> with one entry per column of the return frame \<open>R\<close>
  and every rate \<open>r\<close>, \<^verbatim>\<open>_sharpe_ratio\<close> with its default of 252 trading days is the
  negated annualised Sharpe ratio: minus the inner product of \<open>w\<close> with the mean
  returns times 252, less \<open>r\<close>, over the square root of the quadratic form of the
  covariance matrix times 252. A weight vector of another length raises. The equation
  is one of real numbers; where the variance is not positive or a column has fewer
  than two rows the source computes with \<open>inf\<close> and \<open>NaN\<close>, which the reals do not
  have.
\<close>

theorem sharpe_ratio_formula:
  "sharpe_ratio w returns r 252 =
     (if length w = length returns then Inr (negated_sharpe w returns r) else Inl ValueError)"
proof (cases "length w = length returns")
  case False
  then show ?thesis by (simp add: sharpe_ratio_def Let_def)
next
  case True
  let ?n = "length returns"
  let ?cols = "map snd returns"
  let ?mu = "map (\<lambda>c. mean c * 252) ?cols"
  let ?C = "map (\<lambda>a. map (\<lambda>b. cov a b * 252) ?cols) ?cols"
  have ret: "sum_list (map2 (*) ?mu w) = (\<Sum>i<?n. w ! i * annualised_mean returns i)"
  proof -
    have "sum_list (map2 (*) ?mu w) = (\<Sum>i<length ?mu. ?mu ! i * w ! i)"
      using True by (intro sum_list_map2_nth) simp
    also have "\<dots> = (\<Sum>i<?n. w ! i * annualised_mean returns i)"
      by (intro sum.cong) (auto simp: annualised_mean_def)
    finally show ?thesis .
  qed
  have row: "np_dot (?C ! i) w = (\<Sum>j<?n. annualised_cov returns i j * w ! j)" if "i < ?n" for i
  proof -
    have "np_dot (?C ! i) w = (\<Sum>j<length (?C ! i). ?C ! i ! j * w ! j)"
      using True that by (intro np_dot_nth) simp
    also have "\<dots> = (\<Sum>j<?n. annualised_cov returns i j * w ! j)"
      using that by (intro sum.cong) (auto simp: annualised_cov_def)
    finally show ?thesis .
  qed
  have var: "np_dot w (map (\<lambda>row. np_dot row w) ?C) =
               (\<Sum>i<?n. \<Sum>j<?n. w ! i * annualised_cov returns i j * w ! j)"
  proof -
    have "np_dot w (map (\<lambda>row. np_dot row w) ?C) =
            (\<Sum>i<length w. w ! i * map (\<lambda>row. np_dot row w) ?C ! i)"
      using True by (intro np_dot_nth) simp
    also have "\<dots> = (\<Sum>i<?n. w ! i * (\<Sum>j<?n. annualised_cov returns i j * w ! j))"
    proof (intro sum.cong)
      fix i assume "i \<in> {..<length returns}"
      then have i: "i < ?n" by simp
      then have "map (\<lambda>row. np_dot row w) ?C ! i = np_dot (?C ! i) w"
        by (simp only: nth_map length_map)
      with row [OF i]
      show "w ! i * map (\<lambda>row. np_dot row w) ?C ! i =
              w ! i * (\<Sum>j<?n. annualised_cov returns i j * w ! j)" by simp
    qed (use True in simp)
    also have "\<dots> = (\<Sum>i<?n. \<Sum>j<?n. w ! i * annualised_cov returns i j * w ! j)"
      by (simp add: sum_distrib_left mult.assoc)
    finally show ?thesis .
  qed
  show ?thesis
    using True unfolding sharpe_ratio_def Let_def negated_sharpe_def ret var by simp
qed

text \<open>
  C9: the forecast frame has one column per tradable asset, labelled with it, and for
  every future time step the value in the column is the median, over all sampled
  paths of that asset, of the values sampled at that step.
\<close>

theorem forecast_is_median_path:
  assumes "median_forecasts all_forecasts tradable = Inr forecasts_df"
    and "distinct tradable" and "i < length tradable"
  shows "length forecasts_df = length tradable \<and> i < length all_forecasts \<and>
         fst (forecasts_df ! i) = tradable ! i \<and>
         (\<forall>path \<in> set (all_forecasts ! i). length path = length (snd (forecasts_df ! i))) \<and>
         (\<forall>t < length (snd (forecasts_df ! i)).
            snd (forecasts_df ! i) ! t = median (map (\<lambda>path. path ! t) (all_forecasts ! i)))"
proof -
  let ?P = "\<lambda>(i, symbol) (label, col). label = symbol \<and> i < length all_forecasts \<and>
                  np_quantile_axis0 (all_forecasts ! i) (1 / 2) = Inr col"
  from assms(1) obtain d where m: "median_columns all_forecasts (enumerate 0 tradable) [] = Inr d"
    and df: "data_frame d = Inr forecasts_df"
    by (auto simp: median_forecasts_def split: sum.splits)
  from assms(2) have "distinct (map fst ([] :: dataframe) @ map snd (enumerate 0 tradable))"
    by simp
  from median_columns_shape [OF m this] data_frame_Inr [OF df]
  have l: "list_all2 ?P (enumerate 0 tradable) forecasts_df" by simp
  then have len: "length forecasts_df = length tradable"
    by (auto dest: list_all2_lengthD)
  from l assms(3) have "?P (enumerate 0 tradable ! i) (forecasts_df ! i)"
    by (auto dest: list_all2_nthD)
  with assms(3) have lab: "fst (forecasts_df ! i) = tradable ! i"
    and i: "i < length all_forecasts"
    and q: "np_quantile_axis0 (all_forecasts ! i) (1 / 2) = Inr (snd (forecasts_df ! i))"
    by (auto simp: nth_enumerate_eq case_prod_unfold)
  from np_quantile_axis0_Inr [OF q]
  have ne: "all_forecasts ! i \<noteq> []"
    and rect: "\<forall>path \<in> set (all_forecasts ! i). length path = length (snd (forecasts_df ! i))"
    and v: "\<forall>t < length (snd (forecasts_df ! i)).
              snd (forecasts_df ! i) ! t = quantile_1d (map (\<lambda>p. p ! t) (all_forecasts ! i)) (1 / 2)"
    by blast+
  have "quantile_1d (map (\<lambda>p. p ! t) (all_forecasts ! i)) (1 / 2) =
          median (map (\<lambda>path. path ! t) (all_forecasts ! i))" for t
    using ne by (intro quantile_half_is_median) simp
  with v len i lab rect show ?thesis by simp
qed

theorem forecast_is_median_path_witness:
  "median_forecasts [[[1, 9], [5, 2], [3, 4]], [[10, 20], [30, 60]]] [''AAA'', ''BBB''] =
     Inr [(''AAA'', [3, 4]), (''BBB'', [20, 40])] \<and>
   distinct [''AAA'', ''BBB''] \<and>
   snd ([(''AAA'', [3, 4]), (''BBB'', [20, 40])] ! 1) ! 1 = median [20, 60] \<and>
   median [20, 60] = 40"
proof -
  have m: "median_forecasts [[[1, 9], [5, 2], [3, 4]], [[10, 20], [30, 60]]] [''AAA'', ''BBB''] =
     Inr [(''AAA'', [3, 4]), (''BBB'', [20, 40 :: real])]"
    by (simp add: median_forecasts_def np_quantile_axis0_def quantile_1d_def data_frame_def
        enumerate_eq_zip Let_def)
  have d: "distinct [''AAA'', ''BBB'']" by simp
  have i: "(1::nat) < length [''AAA'', ''BBB'']" by simp
  from forecast_is_median_path [OF m d i] m d show ?thesis
    by (simp add: median_def)
qed

end
